theory Spec2Isabelle
  imports Complex_Main "HOL-Library.AList"
begin

section \<open>Values and documents\<close>

text \<open>
  The values a document or a JSON response of \<^verbatim>\<open>main.py\<close> holds. A \<^verbatim>\<open>datetime.date\<close> is
  \<open>Date year month day\<close>, a naive \<^verbatim>\<open>datetime.datetime\<close> is
  \<open>DateTime year month day hour minute second microsecond\<close>, both with the field ranges
  Python enforces (year at most 9999, month at most 12, ...). A \<^verbatim>\<open>bson.ObjectId\<close> is its
  twelve bytes, kept as the 24 lower-case hexadecimal digits \<^verbatim>\<open>str\<close> prints. One \<open>char\<close>
  stands for one character of a Python \<^verbatim>\<open>str\<close>.
\<close>

datatype date = Date nat nat nat

datatype datetime = DateTime nat nat nat nat nat nat nat

datatype oid = Oid string

datatype val =
    VNone
  | VBool bool
  | VInt int
  | VFloat real
  | VStr string
  | VOid oid
  | VDate date
  | VDateTime datetime
  | VList "val list"
  | VDict "(string \<times> val) list"

text \<open>
  A Python \<^verbatim>\<open>dict\<close> with string keys, as its items in insertion order. \<^verbatim>\<open>d[k] = v\<close> is
  \<open>AList.update k v d\<close> (the value is replaced in place, a new key goes last),
  \<^verbatim>\<open>d.pop(k)\<close> is \<open>AList.delete k d\<close>, \<^verbatim>\<open>k in d\<close> is \<open>map_of d k \<noteq> None\<close>. The keys of a
  \<^verbatim>\<open>dict\<close> are distinct.
\<close>

type_synonym doc = "(string \<times> val) list"

subsection \<open>ISO rendering of dates\<close>

definition digit :: "nat \<Rightarrow> char" where
  "digit n = ''0123456789'' ! (n mod 10)"

text \<open>\<^verbatim>\<open>"%02d" % n\<close>, \<^verbatim>\<open>"%04d" % n\<close> and \<^verbatim>\<open>"%06d" % n\<close>, for \<open>n\<close> of at most that many digits.\<close>

definition pad2 :: "nat \<Rightarrow> string" where
  "pad2 n = [digit (n div 10), digit n]"

definition pad4 :: "nat \<Rightarrow> string" where
  "pad4 n = [digit (n div 1000), digit (n div 100), digit (n div 10), digit n]"

definition pad6 :: "nat \<Rightarrow> string" where
  "pad6 n = [digit (n div 100000), digit (n div 10000), digit (n div 1000),
             digit (n div 100), digit (n div 10), digit n]"

fun date_isoformat :: "date \<Rightarrow> string" where
  "date_isoformat (Date y m d) = pad4 y @ ''-'' @ pad2 m @ ''-'' @ pad2 d"

fun datetime_isoformat :: "datetime \<Rightarrow> string" where
  "datetime_isoformat (DateTime y m d hh mm ss us) =
     pad4 y @ ''-'' @ pad2 m @ ''-'' @ pad2 d @ ''T'' @
     pad2 hh @ '':'' @ pad2 mm @ '':'' @ pad2 ss @
     (if us \<noteq> 0 then ''.'' @ pad6 us else [])"

text \<open>\<^verbatim>\<open>hasattr(v, "isoformat")\<close>: dates and datetimes have the method, no other value does.\<close>

fun hasattr_isoformat :: "val \<Rightarrow> bool" where
  "hasattr_isoformat (VDate d) = True"
| "hasattr_isoformat (VDateTime t) = True"
| "hasattr_isoformat v = False"

fun isoformat :: "val \<Rightarrow> string" where
  "isoformat (VDate d) = date_isoformat d"
| "isoformat (VDateTime t) = datetime_isoformat t"
| "isoformat v = []"

subsection \<open>serialize\_doc\<close>

text \<open>
  \<^verbatim>\<open>str(v)\<close> of the value popped from \<^verbatim>\<open>_id\<close>: the hexadecimal digits of an ObjectId, a
  string itself. The store assigns ObjectIds; what \<^verbatim>\<open>str\<close> prints for a value of another
  type (the \<^verbatim>\<open>repr\<close> of a float, a list, ...) is the parameter \<open>repr\<close>.
\<close>

fun str :: "(val \<Rightarrow> string) \<Rightarrow> val \<Rightarrow> string" where
  "str repr (VOid (Oid h)) = h"
| "str repr (VStr s) = s"
| "str repr v = repr v"

text \<open>
  The loop \<^verbatim>\<open>for k, v in list(doc.items())\<close>: it runs over a snapshot of the items and
  assigns into \<open>doc\<close>. \<^verbatim>\<open>isoformat()\<close> of a date or datetime does not raise, so the
  \<^verbatim>\<open>except\<close> branch is never taken.
\<close>

fun convert_dates :: "(string \<times> val) list \<Rightarrow> doc \<Rightarrow> doc" where
  "convert_dates [] doc = doc"
| "convert_dates ((k, v) # items) doc =
     convert_dates items
       (if hasattr_isoformat v then AList.update k (VStr (isoformat v)) doc else doc)"

definition serialize_doc :: "(val \<Rightarrow> string) \<Rightarrow> doc \<Rightarrow> doc" where
  "serialize_doc repr doc0 =
     (if doc0 = [] then doc0
      else
        let doc1 =
          (case map_of doc0 ''_id'' of
             Some v \<Rightarrow> AList.update ''id'' (VStr (str repr v)) (AList.delete ''_id'' doc0)
           | None \<Rightarrow> doc0)
        in convert_dates doc1 doc1)"

section \<open>Exceptions\<close>

text \<open>
  One entry of a pydantic validation error: the field and the kind of violation.
\<close>

datatype verr_type =
    missing
  | string_type
  | string_too_short
  | value_error
  | greater_than_equal
  | less_than_equal

type_synonym verr = "string \<times> verr_type"

text \<open>
  The exceptions the handlers raise or catch. \<open>HTTPException status_code detail\<close> is
  FastAPI's; \<open>RequestValidationError\<close> is what FastAPI raises when a request body does not
  validate against the handler's parameter model (answered with status 422 and the
  field errors); \<open>ValidationError model errors\<close> is pydantic's, raised by a model
  constructor called inside a handler; \<open>InvalidId\<close> is \<^verbatim>\<open>bson.errors.InvalidId\<close>;
  \<open>StoreUnavailable\<close> is the error of a persistence helper called without a store.
  A \<open>detail\<close> is either a literal text or \<^verbatim>\<open>str(e)\<close> of a caught exception.
\<close>

datatype pyexn =
    HTTPException nat detail
  | RequestValidationError "verr list"
  | Exception string
  | TypeError
  | AttributeError
  | InvalidId string
  | ValidationError string "verr list"
  | StoreUnavailable
and detail =
    Text string
  | StrOf pyexn

text \<open>\<^verbatim>\<open>str(e)\<close>: the message of a plain \<^verbatim>\<open>Exception(msg)\<close>, the exception's own text otherwise.\<close>

fun str_exn :: "pyexn \<Rightarrow> detail" where
  "str_exn (Exception msg) = Text msg"
| "str_exn e = StrOf e"

text \<open>The status of the response FastAPI sends for an exception that leaves a handler.\<close>

fun status_code :: "pyexn \<Rightarrow> nat" where
  "status_code (HTTPException st d) = st"
| "status_code (RequestValidationError errs) = 422"
| "status_code e = 500"

section \<open>ObjectId\<close>

text \<open>
  \<^verbatim>\<open>ObjectId(s)\<close> for a string: \<open>s\<close> must be a 24-character hexadecimal string, otherwise
  \<^verbatim>\<open>InvalidId\<close> is raised. Upper-case and lower-case digits denote the same bytes.
\<close>

definition hex_lower :: "char \<Rightarrow> char option" where
  "hex_lower = map_of (zip ''0123456789abcdefABCDEF'' ''0123456789abcdefabcdef'')"

definition ObjectId :: "string \<Rightarrow> pyexn + oid" where
  "ObjectId s =
     (if length s = 24 then
        (case those (map hex_lower s) of
           Some h \<Rightarrow> Inr (Oid h)
         | None \<Rightarrow> Inl (InvalidId s))
      else Inl (InvalidId s))"

section \<open>The document store\<close>

text \<open>
  Modelled from the spec: \<^verbatim>\<open>database.py\<close> (the handle \<^verbatim>\<open>db\<close> and the helpers
  \<^verbatim>\<open>create_document\<close> and \<^verbatim>\<open>get_documents\<close>) is not among the sources. The spec gives the
  contract: named collections of documents; \<^verbatim>\<open>create(collection, entity) -> id\<close>,
  \<^verbatim>\<open>query(collection, filter) -> sequence of entities\<close>,
  \<^verbatim>\<open>find_one(collection, filter) -> entity or absent\<close>; every entity is assigned an opaque
  identifier by the store at creation; a filter matches by equality of the named fields;
  a request fails with a store error when the store is unavailable.

  A store maps a collection name to its documents in insertion order and counts the
  identifiers it has handed out.
\<close>

record store =
  colls :: "string \<Rightarrow> doc list"
  counter :: nat

text \<open>The calls made to the store, so that a handler's interaction with it can be observed.\<close>

datatype call =
    Find_one string doc
  | Find string doc
  | Insert_one string doc

text \<open>
  The handle \<^verbatim>\<open>db\<close> is \<open>None\<close> when no database is configured. \<^verbatim>\<open>if not db\<close> and
  \<^verbatim>\<open>if db\<close> test exactly that: a configured handle counts as true.
\<close>

record world =
  db :: "store option"
  calls :: "call list"

definition matches :: "doc \<Rightarrow> doc \<Rightarrow> bool" where
  "matches flt d = list_all (\<lambda>(k, v). map_of d k = Some v) flt"

definition find_one :: "store \<Rightarrow> string \<Rightarrow> doc \<Rightarrow> doc option" where
  "find_one s c flt = List.find (matches flt) (colls s c)"

definition find_all :: "store \<Rightarrow> string \<Rightarrow> doc \<Rightarrow> doc list" where
  "find_all s c flt = filter (matches flt) (colls s c)"

text \<open>The \<open>n\<close>-th identifier: \<open>n\<close> as 24 hexadecimal digits.\<close>

definition new_oid :: "nat \<Rightarrow> oid" where
  "new_oid n = Oid (map (\<lambda>i. ''0123456789abcdef'' ! ((n div 16 ^ i) mod 16)) (rev [0..<24]))"

definition insert_one :: "store \<Rightarrow> string \<Rightarrow> doc \<Rightarrow> oid \<times> store" where
  "insert_one s c d =
     (let i = new_oid (counter s);
          stored = (''_id'', VOid i) # AList.delete ''_id'' d
      in (i, s\<lparr>colls := (colls s)(c := colls s c @ [stored]), counter := Suc (counter s)\<rparr>))"

text \<open>
  \<^verbatim>\<open>db[c].find_one(flt)\<close> as \<^verbatim>\<open>main.py\<close> calls it on the handle. On \<open>None\<close> the subscript
  raises \<^verbatim>\<open>TypeError\<close>; every call site tests \<^verbatim>\<open>db\<close> first.
\<close>

definition db_find_one :: "string \<Rightarrow> doc \<Rightarrow> world \<Rightarrow> (pyexn + doc option) \<times> world" where
  "db_find_one c flt w =
     (case db w of
        None \<Rightarrow> (Inl TypeError, w)
      | Some s \<Rightarrow> (Inr (find_one s c flt), w\<lparr>calls := calls w @ [Find_one c flt]\<rparr>))"

text \<open>
  Modelled from the spec: \<^verbatim>\<open>create_document(collection, data)\<close> of the absent
  \<^verbatim>\<open>database.py\<close>, the spec's \<^verbatim>\<open>create(collection, entity) -> id\<close>. It stores the entity's
  fields under a new identifier and returns the identifier as a string; with no store it
  fails.
\<close>

definition create_document :: "string \<Rightarrow> doc \<Rightarrow> world \<Rightarrow> (pyexn + string) \<times> world" where
  "create_document c data w =
     (case db w of
        None \<Rightarrow> (Inl StoreUnavailable, w)
      | Some s \<Rightarrow>
          (case insert_one s c data of
             (Oid h, s') \<Rightarrow> (Inr h, w\<lparr>db := Some s', calls := calls w @ [Insert_one c data]\<rparr>)))"

text \<open>
  Modelled from the spec: \<^verbatim>\<open>get_documents(collection, filter, limit)\<close> of the absent
  \<^verbatim>\<open>database.py\<close>, the spec's \<^verbatim>\<open>query(collection, filter) -> sequence of entities\<close>;
  \<open>limit = None\<close> (the only value \<^verbatim>\<open>main.py\<close> passes) is no limit.
\<close>

definition get_documents ::
  "string \<Rightarrow> doc \<Rightarrow> nat option \<Rightarrow> world \<Rightarrow> (pyexn + doc list) \<times> world" where
  "get_documents c flt limit w =
     (case db w of
        None \<Rightarrow> (Inl StoreUnavailable, w)
      | Some s \<Rightarrow>
          (let found = find_all s c flt
           in (Inr (case limit of None \<Rightarrow> found | Some n \<Rightarrow> take n found),
               w\<lparr>calls := calls w @ [Find c flt]\<rparr>)))"

text \<open>The two \<^verbatim>\<open>except\<close> clauses of the handlers.\<close>

text \<open>\<^verbatim>\<open>except Exception as e: raise HTTPException(status_code=500, detail=str(e))\<close>\<close>

definition except_Exception :: "(pyexn + 'a) \<times> world \<Rightarrow> (pyexn + 'a) \<times> world" where
  "except_Exception r =
     (case r of
        (Inl e, w) \<Rightarrow> (Inl (HTTPException 500 (str_exn e)), w)
      | (Inr v, w) \<Rightarrow> (Inr v, w))"

text \<open>\<^verbatim>\<open>except HTTPException: raise\<close>, then the clause above.\<close>

definition except_HTTPException_raise :: "(pyexn + 'a) \<times> world \<Rightarrow> (pyexn + 'a) \<times> world" where
  "except_HTTPException_raise r =
     (case r of
        (Inl (HTTPException st d), w) \<Rightarrow> (Inl (HTTPException st d), w)
      | _ \<Rightarrow> except_Exception r)"

section \<open>Schemas\<close>

text \<open>The models of \<^verbatim>\<open>schemas.py\<close> and the request models of \<^verbatim>\<open>main.py\<close>.\<close>

record Hotel =
  name :: string
  city :: string
  description :: string
  images :: "string list"
  price_per_night :: real
  rating :: real

record BookingRequest =
  user_email :: string
  hotel_id :: string
  check_in :: date
  check_out :: date
  guests :: int
  special_requests :: "string option"

record Booking =
  user_email :: string
  hotel_id :: string
  check_in :: date
  check_out :: date
  guests :: int
  special_requests :: "string option"

record ContactMessage =
  name :: string
  email :: string
  message :: string

record LoginRequest =
  name :: "string option"
  email :: string
  password :: string

text \<open>\<^verbatim>\<open>model_dump()\<close>: the fields of a model as a \<^verbatim>\<open>dict\<close>, in declaration order.\<close>

definition Hotel_model_dump :: "Hotel \<Rightarrow> doc" where
  "Hotel_model_dump h =
     [(''name'', VStr (Hotel.name h)),
      (''city'', VStr (city h)),
      (''description'', VStr (description h)),
      (''images'', VList (map VStr (images h))),
      (''price_per_night'', VFloat (price_per_night h)),
      (''rating'', VFloat (rating h))]"

definition Booking_model_dump :: "Booking \<Rightarrow> doc" where
  "Booking_model_dump b =
     [(''user_email'', VStr (Booking.user_email b)),
      (''hotel_id'', VStr (Booking.hotel_id b)),
      (''check_in'', VDate (Booking.check_in b)),
      (''check_out'', VDate (Booking.check_out b)),
      (''guests'', VInt (Booking.guests b)),
      (''special_requests'',
         (case Booking.special_requests b of None \<Rightarrow> VNone | Some t \<Rightarrow> VStr t))]"

definition ContactMessage_model_dump :: "ContactMessage \<Rightarrow> doc" where
  "ContactMessage_model_dump m =
     [(''name'', VStr (ContactMessage.name m)),
      (''email'', VStr (ContactMessage.email m)),
      (''message'', VStr (message m))]"

text \<open>
  \<^verbatim>\<open>Booking(**req.model_dump())\<close>: the fields of a validated \<^verbatim>\<open>BookingRequest\<close>, validated
  against \<^verbatim>\<open>Booking\<close>. Every field already has the type \<^verbatim>\<open>Booking\<close> declares (a validated
  e-mail address validates again), so only \<^verbatim>\<open>guests: int = Field(..., ge=1, le=10)\<close> can
  fail.
\<close>

definition new_Booking :: "BookingRequest \<Rightarrow> pyexn + Booking" where
  "new_Booking req =
     (if BookingRequest.guests req < 1 then
        Inl (ValidationError ''Booking'' [(''guests'', greater_than_equal)])
      else if BookingRequest.guests req > 10 then
        Inl (ValidationError ''Booking'' [(''guests'', less_than_equal)])
      else
        Inr \<lparr>Booking.user_email = BookingRequest.user_email req,
             Booking.hotel_id = BookingRequest.hotel_id req,
             Booking.check_in = BookingRequest.check_in req,
             Booking.check_out = BookingRequest.check_out req,
             Booking.guests = BookingRequest.guests req,
             Booking.special_requests = BookingRequest.special_requests req\<rparr>)"

subsection \<open>Validation of a request body against ContactMessage\<close>

text \<open>A parsed JSON value; a request body is a JSON object.\<close>

datatype json =
    JNull
  | JBool bool
  | JInt int
  | JStr string
  | JList "json list"
  | JDict "(string \<times> json) list"

text \<open>A required \<^verbatim>\<open>str\<close> field: present, and a JSON string.\<close>

definition str_field :: "string \<Rightarrow> (string \<times> json) list \<Rightarrow> verr list + string" where
  "str_field k body =
     (case map_of body k of
        None \<Rightarrow> Inl [(k, missing)]
      | Some (JStr s) \<Rightarrow> Inr s
      | Some _ \<Rightarrow> Inl [(k, string_type)])"

text \<open>
  \<^verbatim>\<open>EmailStr\<close>: a string that the e-mail validator accepts. The validator is the parameter
  \<open>validate_email\<close>, which returns the normalised address or \<open>None\<close>.
\<close>

definition email_field ::
  "(string \<Rightarrow> string option) \<Rightarrow> string \<Rightarrow> (string \<times> json) list \<Rightarrow> verr list + string" where
  "email_field validate_email k body =
     (case str_field k body of
        Inl errs \<Rightarrow> Inl errs
      | Inr s \<Rightarrow>
          (case validate_email s of
             None \<Rightarrow> Inl [(k, value_error)]
           | Some a \<Rightarrow> Inr a))"

text \<open>\<^verbatim>\<open>message: str = Field(..., min_length=5)\<close>\<close>

definition min_length_field ::
  "nat \<Rightarrow> string \<Rightarrow> (string \<times> json) list \<Rightarrow> verr list + string" where
  "min_length_field n k body =
     (case str_field k body of
        Inl errs \<Rightarrow> Inl errs
      | Inr s \<Rightarrow> if length s < n then Inl [(k, string_too_short)] else Inr s)"

definition errors_of :: "verr list + 'a \<Rightarrow> verr list" where
  "errors_of r = (case r of Inl errs \<Rightarrow> errs | Inr v \<Rightarrow> [])"

text \<open>pydantic validates every field and reports all the errors, in field order.\<close>

definition validate_ContactMessage ::
  "(string \<Rightarrow> string option) \<Rightarrow> (string \<times> json) list \<Rightarrow> verr list + ContactMessage" where
  "validate_ContactMessage validate_email body =
     (case (str_field ''name'' body,
            email_field validate_email ''email'' body,
            min_length_field 5 ''message'' body) of
        (Inr n, Inr e, Inr m) \<Rightarrow>
          Inr \<lparr>ContactMessage.name = n, ContactMessage.email = e, message = m\<rparr>
      | (rn, re, rm) \<Rightarrow> Inl (errors_of rn @ errors_of re @ errors_of rm))"

section \<open>Endpoint handlers\<close>

text \<open>
  A handler takes the validated request and the world and returns the JSON value it
  answers with, or the exception that leaves it, and the world after it. What was written
  to the store before an exception stays written.
\<close>

text \<open>The truth value of the result of \<^verbatim>\<open>find_one\<close>: \<^verbatim>\<open>None\<close> and the empty \<^verbatim>\<open>dict\<close> are false.\<close>

definition truthy :: "doc option \<Rightarrow> bool" where
  "truthy x = (case x of None \<Rightarrow> False | Some d \<Rightarrow> d \<noteq> [])"

subsection \<open>POST /auth/login\<close>

text \<open>\<^verbatim>\<open>req.name or req.email.split("@")[0]\<close>\<close>

definition login_name :: "LoginRequest \<Rightarrow> string" where
  "login_name req =
     (case LoginRequest.name req of
        Some n \<Rightarrow> if n \<noteq> [] then n else takeWhile (\<lambda>c. c \<noteq> CHR ''@'') (LoginRequest.email req)
      | None \<Rightarrow> takeWhile (\<lambda>c. c \<noteq> CHR ''@'') (LoginRequest.email req))"

definition user_data :: "LoginRequest \<Rightarrow> doc" where
  "user_data req =
     [(''name'', VStr (login_name req)),
      (''email'', VStr (LoginRequest.email req)),
      (''password_hash'', VStr ''demo-hash'')]"

text \<open>
  \<^verbatim>\<open>return {"user": {"name": existing.get("name", user_data["name"]), "email": req.email}}\<close>;
  on \<^verbatim>\<open>None\<close> the call of \<^verbatim>\<open>get\<close> raises \<^verbatim>\<open>AttributeError\<close>.
\<close>

definition login_return ::
  "LoginRequest \<Rightarrow> doc option \<Rightarrow> world \<Rightarrow> (pyexn + val) \<times> world" where
  "login_return req existing w =
     (case existing of
        None \<Rightarrow> (Inl AttributeError, w)
      | Some d \<Rightarrow>
          (Inr (VDict [(''user'',
                  VDict [(''name'',
                            (case map_of d ''name'' of
                               Some v \<Rightarrow> v
                             | None \<Rightarrow> VStr (login_name req))),
                         (''email'', VStr (LoginRequest.email req))])]),
           w))"

definition login :: "LoginRequest \<Rightarrow> world \<Rightarrow> (pyexn + val) \<times> world" where
  "login req w =
     except_Exception
       (case (if db w \<noteq> None
              then db_find_one ''user'' [(''email'', VStr (LoginRequest.email req))] w
              else (Inr None, w)) of
          (Inl e, w1) \<Rightarrow> (Inl e, w1)
        | (Inr existing, w1) \<Rightarrow>
            if \<not> truthy existing then
              (case create_document ''user'' (user_data req) w1 of
                 (Inl e, w2) \<Rightarrow> (Inl e, w2)
               | (Inr uid, w2) \<Rightarrow>
                   (case (if db w2 \<noteq> None
                          then db_find_one ''user'' [(''email'', VStr (LoginRequest.email req))] w2
                          else (Inr (Some (user_data req)), w2)) of
                      (Inl e, w3) \<Rightarrow> (Inl e, w3)
                    | (Inr existing', w3) \<Rightarrow> login_return req existing' w3))
            else login_return req existing w1)"

subsection \<open>POST /hotels/seed\<close>

definition SAMPLE_HOTELS :: "Hotel list" where
  "SAMPLE_HOTELS =
     [\<lparr>Hotel.name = ''Seaside Paradise Resort'',
       city = ''Miami'',
       description = ''Oceanfront resort with private beach, pool, and spa.'',
       images = [''https://images.unsplash.com/photo-1501117716987-c8e3f71b1e47'',
                 ''https://images.unsplash.com/photo-1559599238-0f8c2f66a7e3''],
       price_per_night = 219,
       rating = 46 / 10\<rparr>,
      \<lparr>Hotel.name = ''Urban Chic Hotel'',
       city = ''New York'',
       description = ''Boutique hotel in the heart of the city with skyline views.'',
       images = [''https://images.unsplash.com/photo-1522708323590-d24dbb6b0267'',
                 ''https://images.unsplash.com/photo-1509057199576-632a47484ece''],
       price_per_night = 299,
       rating = 47 / 10\<rparr>,
      \<lparr>Hotel.name = ''Mountain Escape Lodge'',
       city = ''Denver'',
       description = ''Cozy lodge with mountain views, hiking access, and hot tubs.'',
       images = [''https://images.unsplash.com/photo-1505691938895-1758d7feb511'',
                 ''https://images.unsplash.com/photo-1507679799987-c73779587ccf''],
       price_per_night = 189,
       rating = 45 / 10\<rparr>]"

text \<open>The loop \<^verbatim>\<open>for h in SAMPLE_HOTELS\<close>; an exception ends it.\<close>

fun seed_loop :: "Hotel list \<Rightarrow> world \<Rightarrow> (pyexn + unit) \<times> world" where
  "seed_loop [] w = (Inr (), w)"
| "seed_loop (h # hs) w =
     (case db_find_one ''hotel'' [(''name'', VStr (Hotel.name h))] w of
        (Inl e, w1) \<Rightarrow> (Inl e, w1)
      | (Inr exists, w1) \<Rightarrow>
          if \<not> truthy exists then
            (case create_document ''hotel'' (Hotel_model_dump h) w1 of
               (Inl e, w2) \<Rightarrow> (Inl e, w2)
             | (Inr hid, w2) \<Rightarrow> seed_loop hs w2)
          else seed_loop hs w1)"

definition seed_hotels :: "world \<Rightarrow> (pyexn + val) \<times> world" where
  "seed_hotels w =
     except_Exception
       (if db w = None then (Inl (Exception ''Database not configured''), w)
        else
          (case seed_loop SAMPLE_HOTELS w of
             (Inl e, w1) \<Rightarrow> (Inl e, w1)
           | (Inr u, w1) \<Rightarrow> (Inr (VDict [(''status'', VStr ''ok'')]), w1)))"

subsection \<open>GET /hotels\<close>

text \<open>
  \<^verbatim>\<open>flt = {"city": city} if city else {}\<close>, for the query parameter \<open>q\<close> (the handler's
  \<^verbatim>\<open>city\<close>): \<^verbatim>\<open>None\<close> and the empty string are false.
\<close>

definition city_filter :: "string option \<Rightarrow> doc" where
  "city_filter q =
     (case q of
        None \<Rightarrow> []
      | Some c \<Rightarrow> if c \<noteq> [] then [(''city'', VStr c)] else [])"

definition list_hotels ::
  "(val \<Rightarrow> string) \<Rightarrow> string option \<Rightarrow> world \<Rightarrow> (pyexn + val) \<times> world" where
  "list_hotels repr q w =
     except_Exception
       (case get_documents ''hotel'' (city_filter q) None w of
          (Inl e, w1) \<Rightarrow> (Inl e, w1)
        | (Inr hotels, w1) \<Rightarrow>
            (Inr (VList (map (\<lambda>h. VDict (serialize_doc repr h)) hotels)), w1))"

subsection \<open>POST /bookings\<close>

definition create_booking :: "BookingRequest \<Rightarrow> world \<Rightarrow> (pyexn + val) \<times> world" where
  "create_booking req w =
     except_HTTPException_raise
       (if db w = None then (Inl (Exception ''Database not configured''), w)
        else
          (case ObjectId (BookingRequest.hotel_id req) of
             Inl e \<Rightarrow> (Inl e, w)
           | Inr i \<Rightarrow>
               (case db_find_one ''hotel'' [(''_id'', VOid i)] w of
                  (Inl e, w1) \<Rightarrow> (Inl e, w1)
                | (Inr hotel, w1) \<Rightarrow>
                    if \<not> truthy hotel then
                      (Inl (HTTPException 404 (Text ''Hotel not found'')), w1)
                    else
                      (case new_Booking req of
                         Inl e \<Rightarrow> (Inl e, w1)
                       | Inr booking \<Rightarrow>
                           (case create_document ''booking'' (Booking_model_dump booking) w1 of
                              (Inl e, w2) \<Rightarrow> (Inl e, w2)
                            | (Inr booking_id, w2) \<Rightarrow>
                                (Inr (VDict [(''id'', VStr booking_id),
                                             (''message'', VStr ''Booking confirmed'')]),
                                 w2))))))"

subsection \<open>POST /contact\<close>

definition contact :: "ContactMessage \<Rightarrow> world \<Rightarrow> (pyexn + val) \<times> world" where
  "contact msg w =
     except_Exception
       (case create_document ''contactmessage'' (ContactMessage_model_dump msg) w of
          (Inl e, w1) \<Rightarrow> (Inl e, w1)
        | (Inr mid, w1) \<Rightarrow>
            (Inr (VDict [(''id'', VStr mid), (''status'', VStr ''received'')]), w1))"

text \<open>
  The route: FastAPI validates the body against \<^verbatim>\<open>ContactMessage\<close> and calls the handler
  only with a valid message; otherwise it answers 422 with the field errors.
\<close>

definition post_contact ::
  "(string \<Rightarrow> string option) \<Rightarrow> (string \<times> json) list \<Rightarrow> world \<Rightarrow> (pyexn + val) \<times> world" where
  "post_contact validate_email body w =
     (case validate_ContactMessage validate_email body of
        Inl errs \<Rightarrow> (Inl (RequestValidationError errs), w)
      | Inr msg \<Rightarrow> contact msg w)"

section \<open>Notions used in the statements\<close>

text \<open>What the serialization makes of one value: a date or datetime becomes its ISO string.\<close>

definition iso_val :: "val \<Rightarrow> val" where
  "iso_val v = (if hasattr_isoformat v then VStr (isoformat v) else v)"

text \<open>A well-formed identifier: 24 hexadecimal digits.\<close>

definition hexdigits :: string where
  "hexdigits = ''0123456789abcdefABCDEF''"

definition is_object_id :: "string \<Rightarrow> bool" where
  "is_object_id s = (length s = 24 \<and> list_all (\<lambda>c. c \<in> set hexdigits) s)"

text \<open>The string \<open>hid\<close> identifies a hotel document of the store.\<close>

definition identifies_hotel :: "store \<Rightarrow> string \<Rightarrow> bool" where
  "identifies_hotel s hid =
     (case ObjectId hid of
        Inl e \<Rightarrow> False
      | Inr i \<Rightarrow> list_ex (\<lambda>h. map_of h ''_id'' = Some (VOid i)) (colls s ''hotel''))"

text \<open>The documents of a collection whose field \<open>k\<close> is the string \<open>t\<close>.\<close>

definition with_field :: "string \<Rightarrow> string \<Rightarrow> doc list \<Rightarrow> doc list" where
  "with_field k t ds = filter (\<lambda>d. map_of d k = Some (VStr t)) ds"

text \<open>The document the store keeps for an entity created when its counter is \<open>n\<close>.\<close>

definition stored_doc :: "nat \<Rightarrow> doc \<Rightarrow> doc" where
  "stored_doc n d = (''_id'', VOid (new_oid n)) # AList.delete ''_id'' d"

text \<open>The JSON list \<^verbatim>\<open>GET /hotels\<close> answers with for the stored documents \<open>ds\<close>.\<close>

definition serialized :: "(val \<Rightarrow> string) \<Rightarrow> doc list \<Rightarrow> val" where
  "serialized repr ds = VList (map (\<lambda>h. VDict (serialize_doc repr h)) ds)"

text \<open>The status of the response: 200 for a returned value, the exception's otherwise.\<close>

definition response_status :: "pyexn + val \<Rightarrow> nat" where
  "response_status r = (case r of Inl e \<Rightarrow> status_code e | Inr v \<Rightarrow> 200)"

text \<open>\<^verbatim>\<open>str(i)\<close> of an ObjectId.\<close>

fun hex_of :: "oid \<Rightarrow> string" where
  "hex_of (Oid h) = h"

text \<open>The fields of a booking request as the booking document holds them.\<close>

definition booking_doc :: "BookingRequest \<Rightarrow> doc" where
  "booking_doc req =
     [(''user_email'', VStr (BookingRequest.user_email req)),
      (''hotel_id'', VStr (BookingRequest.hotel_id req)),
      (''check_in'', VDate (BookingRequest.check_in req)),
      (''check_out'', VDate (BookingRequest.check_out req)),
      (''guests'', VInt (BookingRequest.guests req)),
      (''special_requests'',
         (case BookingRequest.special_requests req of None \<Rightarrow> VNone | Some t \<Rightarrow> VStr t))]"

text \<open>The fields of a contact message as the stored document holds them.\<close>

definition contact_doc :: "string \<Rightarrow> string \<Rightarrow> string \<Rightarrow> doc" where
  "contact_doc n e m = [(''name'', VStr n), (''email'', VStr e), (''message'', VStr m)]"

text \<open>
  The answer of \<^verbatim>\<open>POST /auth/login\<close> for a name and an address, and the name it takes from
  a stored user document.
\<close>

definition profile :: "val \<Rightarrow> string \<Rightarrow> val" where
  "profile nm e = VDict [(''user'', VDict [(''name'', nm), (''email'', VStr e)])]"

definition name_of :: "LoginRequest \<Rightarrow> doc \<Rightarrow> val" where
  "name_of req d = (case map_of d ''name'' of Some v \<Rightarrow> v | None \<Rightarrow> VStr (login_name req))"

text \<open>The hotel collection of a world, and the number of documents with a given name.\<close>

definition hotels_of :: "world \<Rightarrow> doc list" where
  "hotels_of w = (case db w of None \<Rightarrow> [] | Some s \<Rightarrow> colls s ''hotel'')"

definition named :: "string \<Rightarrow> doc list \<Rightarrow> nat" where
  "named nm ds = length (with_field ''name'' nm ds)"

text \<open>
  What one round of the seeding loop does to a configured store, and what the whole loop
  does; the proofs below show that \<open>seed_loop\<close> computes exactly this.
\<close>

definition seed_step :: "Hotel \<Rightarrow> store \<Rightarrow> store" where
  "seed_step h s =
     (if list_ex (\<lambda>d. map_of d ''name'' = Some (VStr (Hotel.name h))) (colls s ''hotel'') then s
      else snd (insert_one s ''hotel'' (Hotel_model_dump h)))"

fun seed_store :: "Hotel list \<Rightarrow> store \<Rightarrow> store" where
  "seed_store [] s = s"
| "seed_store (h # hs) s = seed_store hs (seed_step h s)"

text \<open>
  The fields of a hotel as the stored document holds them; the sample hotels of which the
  hotels \<open>before\<close> hold no namesake; and the documents the store keeps when it creates
  the hotels \<open>hs\<close> one after the other, starting with its counter at \<open>n\<close>.
\<close>

definition hotel_doc :: "Hotel \<Rightarrow> doc" where
  "hotel_doc h =
     [(''name'', VStr (Hotel.name h)),
      (''city'', VStr (city h)),
      (''description'', VStr (description h)),
      (''images'', VList (map VStr (images h))),
      (''price_per_night'', VFloat (price_per_night h)),
      (''rating'', VFloat (rating h))]"

definition missing_hotels :: "doc list \<Rightarrow> Hotel list \<Rightarrow> Hotel list" where
  "missing_hotels before hs = filter (\<lambda>h. named (Hotel.name h) before = 0) hs"

definition seeded_docs :: "nat \<Rightarrow> Hotel list \<Rightarrow> doc list" where
  "seeded_docs n hs = map (\<lambda>(i, h). stored_doc i (hotel_doc h)) (List.enumerate n hs)"

section \<open>Example inputs\<close>

text \<open>A rendering for the values whose \<^verbatim>\<open>str\<close> is not modelled, and an e-mail validator.\<close>

definition no_repr :: "val \<Rightarrow> string" where
  "no_repr v = ''?''"

definition accept_at :: "string \<Rightarrow> string option" where
  "accept_at s = (if CHR ''@'' \<in> set s then Some s else None)"

text \<open>Stored documents.\<close>

definition urban_chic :: doc where
  "urban_chic =
     [(''_id'', VOid (Oid ''0123456789abcdef01234567'')),
      (''name'', VStr ''Urban Chic Hotel''),
      (''city'', VStr ''New York'')]"

definition urban_chic_twin :: doc where
  "urban_chic_twin =
     [(''_id'', VOid (Oid ''0123456789abcdef0123456a'')),
      (''name'', VStr ''Urban Chic Hotel''),
      (''city'', VStr ''Boston'')]"

definition no_city :: doc where
  "no_city =
     [(''_id'', VOid (Oid ''0123456789abcdef01234568'')),
      (''name'', VStr ''Roadside Inn''),
      (''city'', VStr '''')]"

definition existing_booking :: doc where
  "existing_booking =
     [(''_id'', VOid (Oid ''000000000000000000000001'')),
      (''user_email'', VStr ''c@d.com''),
      (''hotel_id'', VStr ''0123456789abcdef01234567''),
      (''check_in'', VDate (Date 2025 5 30)),
      (''check_out'', VDate (Date 2025 6 5)),
      (''guests'', VInt 1),
      (''special_requests'', VNone)]"

definition sample_booking :: doc where
  "sample_booking =
     [(''_id'', VOid (Oid ''0123456789abcdef01234567'')),
      (''check_in'', VDate (Date 2025 6 12)),
      (''created_at'', VDateTime (DateTime 2025 5 30 7 5 9 120)),
      (''guests'', VInt 2)]"

definition ann :: doc where
  "ann =
     [(''_id'', VOid (Oid ''0123456789abcdef01234569'')),
      (''name'', VStr ''Ann''),
      (''email'', VStr ''ann@b.com''),
      (''password_hash'', VStr ''demo-hash'')]"

text \<open>Stores.\<close>

definition empty_store :: store where
  "empty_store = \<lparr>colls = (\<lambda>c. []), counter = 0\<rparr>"

definition one_hotel_store :: store where
  "one_hotel_store = \<lparr>colls = (\<lambda>c. [])(''hotel'' := [urban_chic]), counter = 1\<rparr>"

definition two_hotel_store :: store where
  "two_hotel_store = \<lparr>colls = (\<lambda>c. [])(''hotel'' := [urban_chic, no_city]), counter = 2\<rparr>"

definition twin_store :: store where
  "twin_store =
     \<lparr>colls = (\<lambda>c. [])(''hotel'' := [urban_chic, urban_chic_twin]), counter = 2\<rparr>"

definition booked_store :: store where
  "booked_store =
     \<lparr>colls = (\<lambda>c. [])(''hotel'' := [urban_chic], ''booking'' := [existing_booking]),
      counter = 2\<rparr>"

definition one_user_store :: store where
  "one_user_store = \<lparr>colls = (\<lambda>c. [])(''user'' := [ann]), counter = 1\<rparr>"

text \<open>
  Requests. The booking request checks out two days before it checks in, inside the
  stay of \<open>existing_booking\<close>.
\<close>

definition booking_request :: "string \<Rightarrow> int \<Rightarrow> BookingRequest" where
  "booking_request hid n =
     \<lparr>BookingRequest.user_email = ''a@b.com'',
      BookingRequest.hotel_id = hid,
      BookingRequest.check_in = Date 2025 6 3,
      BookingRequest.check_out = Date 2025 6 1,
      BookingRequest.guests = n,
      BookingRequest.special_requests = None\<rparr>"

definition contact_body :: "string \<Rightarrow> (string \<times> json) list" where
  "contact_body m = [(''name'', JStr ''Ann''), (''email'', JStr ''ann@b.com''), (''message'', JStr m)]"

definition login_request :: "string \<Rightarrow> LoginRequest" where
  "login_request e = \<lparr>LoginRequest.name = None, LoginRequest.email = e, password = ''pw''\<rparr>"

section \<open>Documents and serialization\<close>

lemma map_of_convert_dates:
  "distinct (map fst items) \<Longrightarrow>
   map_of (convert_dates items doc) k =
     (case map_of items k of
        Some v \<Rightarrow> if hasattr_isoformat v then Some (VStr (isoformat v)) else map_of doc k
      | None \<Rightarrow> map_of doc k)"
proof (induction items arbitrary: doc)
  case Nil
  then show ?case by simp
next
  case (Cons p items)
  obtain k0 v0 where p: "p = (k0, v0)" by (cases p)
  from Cons.prems p have notin: "map_of items k0 = None" and dist: "distinct (map fst items)"
    by (auto simp: map_of_eq_None_iff)
  show ?case
    using Cons.IH [OF dist] notin
    by (auto simp: p AList.update_conv' split: option.splits)
qed

lemma distinct_convert_dates:
  "distinct (map fst doc) \<Longrightarrow> distinct (map fst (convert_dates items doc))"
  by (induction items arbitrary: doc) (auto simp: AList.distinct_update)

lemma map_of_convert_dates_self:
  "distinct (map fst doc) \<Longrightarrow>
   map_of (convert_dates doc doc) k = map_option iso_val (map_of doc k)"
  by (simp add: map_of_convert_dates iso_val_def split: option.splits)

lemma distinct_serialize_doc:
  "distinct (map fst d) \<Longrightarrow> distinct (map fst (serialize_doc repr d))"
  by (auto simp: serialize_doc_def Let_def distinct_convert_dates AList.distinct_update
      AList.distinct_delete split: option.splits)

lemma map_of_serialize_doc:
  assumes "distinct (map fst d)"
  shows "map_of (serialize_doc repr d) k =
     (if k = ''_id'' then None
      else if k = ''id'' \<and> map_of d ''_id'' \<noteq> None
        then Some (VStr (str repr (the (map_of d ''_id''))))
      else map_option iso_val (map_of d k))"
proof (cases "map_of d ''_id''")
  case None
  then show ?thesis using assms
    by (auto simp: serialize_doc_def Let_def map_of_convert_dates_self)
next
  case (Some v)
  let ?d1 = "AList.update ''id'' (VStr (str repr v)) (AList.delete ''_id'' d)"
  have d1: "distinct (map fst ?d1)"
    using assms by (simp add: AList.distinct_update AList.distinct_delete)
  have ne: "d \<noteq> []" using Some by auto
  have "serialize_doc repr d = convert_dates ?d1 ?d1"
    using Some ne by (simp add: serialize_doc_def Let_def)
  then show ?thesis
    using Some d1
    by (auto simp: map_of_convert_dates_self AList.update_conv' AList.delete_conv' iso_val_def)
qed

section \<open>Identifiers and lookups\<close>

lemma hex_lower_None_iff: "hex_lower c = None \<longleftrightarrow> c \<notin> set hexdigits"
  unfolding hex_lower_def hexdigits_def by (simp add: map_of_eq_None_iff)

lemma those_map_None_iff: "those (map f xs) = None \<longleftrightarrow> (\<exists>x\<in>set xs. f x = None)"
  by (induction xs) (auto split: option.splits)

lemma ObjectId_invalid_iff: "ObjectId s = Inl (InvalidId s) \<longleftrightarrow> \<not> is_object_id s"
proof -
  have "those (map hex_lower s) = None \<longleftrightarrow> \<not> list_all (\<lambda>c. c \<in> set hexdigits) s"
    by (simp add: those_map_None_iff hex_lower_None_iff list_all_iff)
  then show ?thesis
    by (auto simp: ObjectId_def is_object_id_def split: option.splits)
qed

lemma ObjectId_cases: "ObjectId s = Inl (InvalidId s) \<or> (\<exists>i. ObjectId s = Inr i)"
  by (auto simp: ObjectId_def split: option.splits)

lemma matches_single: "matches [(k, v)] d = (map_of d k = Some v)"
  by (simp add: matches_def)

lemma matches_Nil: "matches [] d"
  by (simp add: matches_def)

lemma truthy_find_one:
  "truthy (find_one s c [(k, v)]) \<longleftrightarrow> list_ex (\<lambda>d. map_of d k = Some v) (colls s c)"
proof (cases "find_one s c [(k, v)]")
  case None
  then have "\<not> list_ex (\<lambda>d. map_of d k = Some v) (colls s c)"
    by (simp add: find_one_def find_None_iff matches_single list_ex_iff)
  then show ?thesis using None
    by (simp add: truthy_def)
next
  case (Some d)
  then have "d \<in> set (colls s c) \<and> map_of d k = Some v"
    by (auto simp: find_one_def find_Some_iff matches_single)
  then show ?thesis using Some
    by (auto simp: truthy_def list_ex_iff)
qed

section \<open>POST /bookings\<close>

text \<open>
  The handler on a configured store and a well-formed \<^verbatim>\<open>hotel_id\<close>: one lookup of the hotel,
  then 404, or the validation of the booking, then the insertion.
\<close>

lemma create_booking_found:
  assumes "db w = Some s" and "ObjectId (BookingRequest.hotel_id req) = Inr i"
  shows "create_booking req w =
     (let w1 = w\<lparr>calls := calls w @ [Find_one ''hotel'' [(''_id'', VOid i)]]\<rparr> in
      if \<not> list_ex (\<lambda>h. map_of h ''_id'' = Some (VOid i)) (colls s ''hotel'')
      then (Inl (HTTPException 404 (Text ''Hotel not found'')), w1)
      else (case new_Booking req of
              Inl e \<Rightarrow> (Inl (HTTPException 500 (StrOf e)), w1)
            | Inr booking \<Rightarrow>
                (case insert_one s ''booking'' (Booking_model_dump booking) of
                   (Oid h, s') \<Rightarrow>
                     (Inr (VDict [(''id'', VStr h), (''message'', VStr ''Booking confirmed'')]),
                      w1\<lparr>db := Some s',
                         calls := calls w1 @ [Insert_one ''booking'' (Booking_model_dump booking)]\<rparr>))))"
  using assms truthy_find_one [of s "''hotel''" "''_id''" "VOid i"]
  by (auto simp: create_booking_def except_HTTPException_raise_def except_Exception_def
      db_find_one_def create_document_def Let_def new_Booking_def
      split: sum.splits prod.splits oid.splits)

lemma create_booking_malformed:
  assumes "\<not> is_object_id (BookingRequest.hotel_id req)"
  shows "create_booking req w =
           (Inl (HTTPException 500
                  (if db w = None then Text ''Database not configured''
                   else StrOf (InvalidId (BookingRequest.hotel_id req)))), w)"
  using assms ObjectId_invalid_iff [of "BookingRequest.hotel_id req"]
  by (simp add: create_booking_def except_HTTPException_raise_def except_Exception_def)

text \<open>
  Claim C9. For every POST /bookings request whose \<^verbatim>\<open>hotel_id\<close> is not a well-formed store
  identifier (not 24 hexadecimal digits), the handler answers with status 500, not 404,
  and creates no booking: the world is left as it was. On a configured store the detail is
  the text of the \<^verbatim>\<open>InvalidId\<close> error that the construction of the identifier raised and
  the broad \<^verbatim>\<open>except Exception\<close> clause caught.
\<close>

theorem malformed_hotel_id_is_500:
  assumes "\<not> is_object_id (BookingRequest.hotel_id req)"
  shows "response_status (fst (create_booking req w)) = 500
       \<and> snd (create_booking req w) = w
       \<and> (db w \<noteq> None \<longrightarrow>
            fst (create_booking req w) =
              Inl (HTTPException 500 (StrOf (InvalidId (BookingRequest.hotel_id req)))))"
  using create_booking_malformed [OF assms, of w]
  by (simp add: response_status_def)

theorem malformed_hotel_id_is_500_witness:
  "\<not> is_object_id ''abc''
   \<and> response_status (fst (create_booking (booking_request ''abc'' 2)
        \<lparr>db = Some one_hotel_store, calls = []\<rparr>)) = 500
   \<and> snd (create_booking (booking_request ''abc'' 2) \<lparr>db = Some one_hotel_store, calls = []\<rparr>)
       = \<lparr>db = Some one_hotel_store, calls = []\<rparr>
   \<and> fst (create_booking (booking_request ''abc'' 2) \<lparr>db = Some one_hotel_store, calls = []\<rparr>)
       = Inl (HTTPException 500 (StrOf (InvalidId ''abc'')))"
proof -
  have h: "\<not> is_object_id (BookingRequest.hotel_id (booking_request ''abc'' 2))"
    by (simp add: is_object_id_def booking_request_def)
  show ?thesis
    using h malformed_hotel_id_is_500 [OF h, of "\<lparr>db = Some one_hotel_store, calls = []\<rparr>"]
    by (simp add: booking_request_def response_status_def)
qed

text \<open>
  Claim C2, as stated: every POST /bookings request whose \<^verbatim>\<open>hotel_id\<close> does not identify an
  existing hotel document is answered 404. It fails for a \<^verbatim>\<open>hotel_id\<close> that is not a
  well-formed identifier: \<^verbatim>\<open>"abc"\<close> identifies no hotel of the empty store, and the answer is
  500.
\<close>

theorem absent_hotel_not_always_404:
  "\<not> identifies_hotel empty_store ''abc''
   \<and> response_status (fst (create_booking (booking_request ''abc'' 2)
        \<lparr>db = Some empty_store, calls = []\<rparr>)) = 500"
  using create_booking_malformed [of "booking_request ''abc'' 2" "\<lparr>db = Some empty_store, calls = []\<rparr>"]
  by (simp add: identifies_hotel_def ObjectId_def is_object_id_def booking_request_def response_status_def)

text \<open>
  Claim C2, amended. For every POST /bookings request whose \<^verbatim>\<open>hotel_id\<close> does not identify
  an existing hotel document of the store, the store is unchanged (no booking record is
  inserted); the handler answers 404 when \<^verbatim>\<open>hotel_id\<close> is a well-formed identifier, and
  500 when it is not.
\<close>

theorem absent_hotel_404_or_500:
  assumes "db w = Some s" and "\<not> identifies_hotel s (BookingRequest.hotel_id req)"
  shows "db (snd (create_booking req w)) = db w
       \<and> (is_object_id (BookingRequest.hotel_id req) \<longrightarrow>
            fst (create_booking req w) = Inl (HTTPException 404 (Text ''Hotel not found'')))
       \<and> (\<not> is_object_id (BookingRequest.hotel_id req) \<longrightarrow>
            response_status (fst (create_booking req w)) = 500)"
proof (cases "is_object_id (BookingRequest.hotel_id req)")
  case False
  then show ?thesis
    using create_booking_malformed [OF False, of w] by (simp add: response_status_def)
next
  case True
  then obtain i where i: "ObjectId (BookingRequest.hotel_id req) = Inr i"
    using ObjectId_cases [of "BookingRequest.hotel_id req"] ObjectId_invalid_iff by blast
  with assms(2) have "\<not> list_ex (\<lambda>h. map_of h ''_id'' = Some (VOid i)) (colls s ''hotel'')"
    by (simp add: identifies_hotel_def)
  then show ?thesis
    using create_booking_found [OF assms(1) i] True assms(1) by (simp add: Let_def)
qed

theorem absent_hotel_404_or_500_witness:
  "db \<lparr>db = Some one_hotel_store, calls = []\<rparr> = Some one_hotel_store
   \<and> \<not> identifies_hotel one_hotel_store ''0123456789abcdef0123456F''
   \<and> is_object_id ''0123456789abcdef0123456F''
   \<and> db (snd (create_booking (booking_request ''0123456789abcdef0123456F'' 2)
        \<lparr>db = Some one_hotel_store, calls = []\<rparr>)) = Some one_hotel_store
   \<and> fst (create_booking (booking_request ''0123456789abcdef0123456F'' 2)
        \<lparr>db = Some one_hotel_store, calls = []\<rparr>) =
       Inl (HTTPException 404 (Text ''Hotel not found''))"
proof -
  let ?w = "\<lparr>db = Some one_hotel_store, calls = []\<rparr>"
  let ?req = "booking_request ''0123456789abcdef0123456F'' 2"
  have a: "db ?w = Some one_hotel_store" by simp
  have b: "\<not> identifies_hotel one_hotel_store (BookingRequest.hotel_id ?req)"
    by (simp add: identifies_hotel_def ObjectId_def hex_lower_def one_hotel_store_def
        urban_chic_def booking_request_def)
  have c: "is_object_id (BookingRequest.hotel_id ?req)"
    by (simp add: is_object_id_def hexdigits_def booking_request_def)
  from absent_hotel_404_or_500 [OF a b] a b c show ?thesis
    by (simp add: booking_request_def)
qed

lemma identifies_hotel_iff:
  "ObjectId hid = Inr i \<Longrightarrow>
   identifies_hotel s hid = list_ex (\<lambda>h. map_of h ''_id'' = Some (VOid i)) (colls s ''hotel'')"
  by (simp add: identifies_hotel_def)

lemma identifies_hotel_ObjectId:
  "identifies_hotel s hid \<Longrightarrow> \<exists>i. ObjectId hid = Inr i"
  by (cases "ObjectId hid") (auto simp: identifies_hotel_def)


text \<open>
  Claim C1. A POST /bookings request with \<^verbatim>\<open>guests\<close> 0 or 11 is to be rejected before any
  store interaction, with a failure that reports the violating field. The code does not
  do that. The request model \<^verbatim>\<open>BookingRequest\<close> declares \<^verbatim>\<open>guests: int\<close> without the bounds
  that \<^verbatim>\<open>schemas.Booking\<close> has, so the request reaches the handler, which looks the hotel
  up first and constructs \<^verbatim>\<open>Booking\<close> only afterwards, inside the broad \<^verbatim>\<open>except\<close> clause.
  At \<^verbatim>\<open>guests\<close> 0 or 11 and the identifier of a stored hotel the store has been read once
  when the request fails, and the failure is status 500 with the text of the validation
  error; at \<^verbatim>\<open>guests\<close> 0 and a well-formed identifier of no hotel the answer is 404, Hotel
  not found, which names no field. Nothing is written in either case.
\<close>

theorem guests_out_of_range_reads_store_first:
  "create_booking (booking_request ''0123456789abcdef01234567'' 0)
       \<lparr>db = Some one_hotel_store, calls = []\<rparr> =
     (Inl (HTTPException 500 (StrOf (ValidationError ''Booking''
             [(''guests'', greater_than_equal)]))),
      \<lparr>db = Some one_hotel_store,
       calls = [Find_one ''hotel'' [(''_id'', VOid (Oid ''0123456789abcdef01234567''))]]\<rparr>)
   \<and> create_booking (booking_request ''0123456789abcdef01234567'' 11)
       \<lparr>db = Some one_hotel_store, calls = []\<rparr> =
     (Inl (HTTPException 500 (StrOf (ValidationError ''Booking''
             [(''guests'', less_than_equal)]))),
      \<lparr>db = Some one_hotel_store,
       calls = [Find_one ''hotel'' [(''_id'', VOid (Oid ''0123456789abcdef01234567''))]]\<rparr>)
   \<and> create_booking (booking_request ''0123456789abcdef01234567'' 0)
       \<lparr>db = Some empty_store, calls = []\<rparr> =
     (Inl (HTTPException 404 (Text ''Hotel not found'')),
      \<lparr>db = Some empty_store,
       calls = [Find_one ''hotel'' [(''_id'', VOid (Oid ''0123456789abcdef01234567''))]]\<rparr>)"
  by (simp add: create_booking_def except_HTTPException_raise_def except_Exception_def
        db_find_one_def ObjectId_def hex_lower_def booking_request_def one_hotel_store_def
        empty_store_def urban_chic_def find_one_def matches_def truthy_def new_Booking_def)

text \<open>
  Claim C7. No ordering is enforced between \<^verbatim>\<open>check_in\<close> and \<^verbatim>\<open>check_out\<close>: whenever the
  hotel exists and \<^verbatim>\<open>guests\<close> is between 1 and 10, the booking is stored with the dates as
  given and confirmed, whatever the two dates are and whatever bookings the store already
  holds.
\<close>

theorem booking_without_date_check:
  assumes "db w = Some s"
    and "identifies_hotel s (BookingRequest.hotel_id req)"
    and "1 \<le> BookingRequest.guests req" and "BookingRequest.guests req \<le> 10"
  shows "fst (create_booking req w) =
           Inr (VDict [(''id'', VStr (hex_of (new_oid (counter s)))),
                       (''message'', VStr ''Booking confirmed'')])
       \<and> db (snd (create_booking req w)) =
           Some (s\<lparr>colls := (colls s)(''booking'' :=
                           colls s ''booking'' @ [stored_doc (counter s) (booking_doc req)]),
                   counter := Suc (counter s)\<rparr>)"
proof -
  obtain i where i: "ObjectId (BookingRequest.hotel_id req) = Inr i"
    using identifies_hotel_ObjectId [OF assms(2)] by blast
  have ex: "list_ex (\<lambda>h. map_of h ''_id'' = Some (VOid i)) (colls s ''hotel'')"
    using assms(2) i by (simp add: identifies_hotel_def)
  obtain b where b: "new_Booking req = Inr b" and dump: "Booking_model_dump b = booking_doc req"
    using assms(3,4) by (simp add: new_Booking_def Booking_model_dump_def booking_doc_def)
  obtain h where h: "new_oid (counter s) = Oid h" by (cases "new_oid (counter s)")
  show ?thesis
    using create_booking_found [OF assms(1) i] ex b dump h
    by (simp add: Let_def insert_one_def stored_doc_def)
qed
theorem booking_without_date_check_witness:
  "db \<lparr>db = Some booked_store, calls = []\<rparr> = Some booked_store
   \<and> identifies_hotel booked_store ''0123456789abcdef01234567''
   \<and> BookingRequest.check_in (booking_request ''0123456789abcdef01234567'' 2) = Date 2025 6 3
   \<and> BookingRequest.check_out (booking_request ''0123456789abcdef01234567'' 2) = Date 2025 6 1
   \<and> fst (create_booking (booking_request ''0123456789abcdef01234567'' 2)
        \<lparr>db = Some booked_store, calls = []\<rparr>) =
       Inr (VDict [(''id'', VStr (hex_of (new_oid 2))),
                   (''message'', VStr ''Booking confirmed'')])
   \<and> db (snd (create_booking (booking_request ''0123456789abcdef01234567'' 2)
           \<lparr>db = Some booked_store, calls = []\<rparr>)) =
       Some (booked_store\<lparr>colls := (colls booked_store)(''booking'' :=
          [existing_booking,
           [(''_id'', VOid (new_oid 2)),
            (''user_email'', VStr ''a@b.com''),
            (''hotel_id'', VStr ''0123456789abcdef01234567''),
            (''check_in'', VDate (Date 2025 6 3)),
            (''check_out'', VDate (Date 2025 6 1)),
            (''guests'', VInt 2),
            (''special_requests'', VNone)]]),
          counter := 3\<rparr>)"
proof -
  let ?req = "booking_request ''0123456789abcdef01234567'' 2"
  let ?w = "\<lparr>db = Some booked_store, calls = []\<rparr>"
  have a: "db ?w = Some booked_store" by simp
  have b: "identifies_hotel booked_store (BookingRequest.hotel_id ?req)"
    by (simp add: identifies_hotel_def ObjectId_def hex_lower_def booked_store_def
        urban_chic_def booking_request_def)
  have c: "1 \<le> BookingRequest.guests ?req" and d: "BookingRequest.guests ?req \<le> 10"
    by (simp_all add: booking_request_def)
  have cnt: "counter booked_store = 2" and bk: "colls booked_store ''booking'' = [existing_booking]"
    by (simp_all add: booked_store_def)
  have doc: "stored_doc 2 (booking_doc ?req) =
      [(''_id'', VOid (new_oid 2)),
            (''user_email'', VStr ''a@b.com''),
            (''hotel_id'', VStr ''0123456789abcdef01234567''),
            (''check_in'', VDate (Date 2025 6 3)),
            (''check_out'', VDate (Date 2025 6 1)),
            (''guests'', VInt 2),
            (''special_requests'', VNone)]"
    by (simp add: stored_doc_def booking_doc_def booking_request_def)
  have hid: "BookingRequest.hotel_id ?req = ''0123456789abcdef01234567''"
    and ci: "BookingRequest.check_in ?req = Date 2025 6 3"
    and co: "BookingRequest.check_out ?req = Date 2025 6 1"
    by (simp_all add: booking_request_def)
  from booking_without_date_check [OF a b c d] b
  show ?thesis
    unfolding cnt bk doc hid ci co by simp
qed

section \<open>GET /hotels and the serialization\<close>

lemma list_hotels_db:
  "db w = Some s \<Longrightarrow>
   list_hotels repr q w =
     (Inr (serialized repr (find_all s ''hotel'' (city_filter q))),
      w\<lparr>calls := calls w @ [Find ''hotel'' (city_filter q)]\<rparr>)"
  by (simp add: list_hotels_def get_documents_def except_Exception_def serialized_def Let_def)

lemma find_all_Nil: "find_all s c [] = colls s c"
  by (simp add: find_all_def matches_def)

lemma find_all_single: "find_all s c [(k, VStr t)] = with_field k t (colls s c)"
  by (auto simp: find_all_def with_field_def matches_single intro: filter_cong)

lemma iso_val_no_date: "\<not> hasattr_isoformat (iso_val v)"
  by (cases v) (simp_all add: iso_val_def)

lemma serialize_sample:
  "serialize_doc no_repr sample_booking =
     [(''check_in'', VStr ''2025-06-12''),
      (''created_at'', VStr ''2025-05-30T07:05:09.000120''),
      (''guests'', VInt 2),
      (''id'', VStr ''0123456789abcdef01234567'')]"
  by (simp add: serialize_doc_def sample_booking_def pad2_def pad4_def pad6_def digit_def)


text \<open>
  Claim C5. For every document (a \<^verbatim>\<open>dict\<close>, so with distinct keys), \<^verbatim>\<open>serialize_doc\<close>
  removes the key \<^verbatim>\<open>_id\<close> and, when the document had it, puts its string rendering under
  \<^verbatim>\<open>id\<close>; every other field keeps its value, except that a date or datetime value is
  replaced by its ISO string, so that no field of the result holds a date. \<^verbatim>\<open>GET /hotels\<close>,
  the one endpoint that returns stored documents, applies it to every document it returns.
\<close>

theorem serialize_doc_id_and_dates:
  assumes "distinct (map fst d)"
  shows "map_of (serialize_doc repr d) ''_id'' = None
       \<and> (\<forall>v. map_of d ''_id'' = Some v \<longrightarrow>
             map_of (serialize_doc repr d) ''id'' = Some (VStr (str repr v)))
       \<and> (\<forall>k. k \<noteq> ''_id'' \<and> (k \<noteq> ''id'' \<or> map_of d ''_id'' = None) \<longrightarrow>
             map_of (serialize_doc repr d) k = map_option iso_val (map_of d k))
       \<and> (\<forall>k v. map_of (serialize_doc repr d) k = Some v \<longrightarrow> \<not> hasattr_isoformat v)
       \<and> (\<forall>s. db w = Some s \<longrightarrow>
             fst (list_hotels repr q w) =
               Inr (VList (map (\<lambda>h. VDict (serialize_doc repr h))
                            (find_all s ''hotel'' (city_filter q)))))"
proof -
  note m = map_of_serialize_doc [OF assms, of repr]
  have 1: "map_of (serialize_doc repr d) ''_id'' = None" by (simp add: m)
  have 2: "\<forall>v. map_of d ''_id'' = Some v \<longrightarrow>
             map_of (serialize_doc repr d) ''id'' = Some (VStr (str repr v))"
    by (simp add: m)
  have 3: "\<forall>k. k \<noteq> ''_id'' \<and> (k \<noteq> ''id'' \<or> map_of d ''_id'' = None) \<longrightarrow>
             map_of (serialize_doc repr d) k = map_option iso_val (map_of d k)"
    by (auto simp: m)
  have 4: "\<forall>k v. map_of (serialize_doc repr d) k = Some v \<longrightarrow> \<not> hasattr_isoformat v"
    using iso_val_no_date by (auto simp: m split: if_splits)
  have 5: "\<forall>s. db w = Some s \<longrightarrow>
             fst (list_hotels repr q w) =
               Inr (VList (map (\<lambda>h. VDict (serialize_doc repr h))
                            (find_all s ''hotel'' (city_filter q))))"
    by (simp add: list_hotels_db serialized_def)
  from 1 2 3 4 5 show ?thesis by blast
qed


theorem serialize_doc_id_and_dates_witness:
  "distinct (map fst sample_booking)
   \<and> map_of (serialize_doc no_repr sample_booking) ''_id'' = None
   \<and> map_of (serialize_doc no_repr sample_booking) ''id'' =
        Some (VStr ''0123456789abcdef01234567'')
   \<and> map_of (serialize_doc no_repr sample_booking) ''check_in'' = Some (VStr ''2025-06-12'')
   \<and> map_of (serialize_doc no_repr sample_booking) ''created_at'' =
        Some (VStr ''2025-05-30T07:05:09.000120'')
   \<and> map_of (serialize_doc no_repr sample_booking) ''guests'' = Some (VInt 2)
   \<and> fst (list_hotels no_repr None \<lparr>db = Some one_hotel_store, calls = []\<rparr>) =
        Inr (VList [VDict (serialize_doc no_repr urban_chic)])"
proof -
  have d: "distinct (map fst sample_booking)"
    by (simp add: sample_booking_def)
  have i: "map_of sample_booking ''_id'' = Some (VOid (Oid ''0123456789abcdef01234567''))"
    and ci: "map_of sample_booking ''check_in'' = Some (VDate (Date 2025 6 12))"
    and ca: "map_of sample_booking ''created_at'' = Some (VDateTime (DateTime 2025 5 30 7 5 9 120))"
    and g: "map_of sample_booking ''guests'' = Some (VInt 2)"
    by (simp_all add: sample_booking_def)
  have iso1: "iso_val (VDate (Date 2025 6 12)) = VStr ''2025-06-12''"
    by (simp add: iso_val_def pad2_def pad4_def digit_def)
  have iso2: "iso_val (VDateTime (DateTime 2025 5 30 7 5 9 120)) = VStr ''2025-05-30T07:05:09.000120''"
    by (simp add: iso_val_def pad2_def pad4_def pad6_def digit_def)
  have iso3: "iso_val (VInt 2) = VInt 2"
    by (simp add: iso_val_def)
  have fa: "find_all one_hotel_store ''hotel'' (city_filter None) = [urban_chic]"
    by (simp add: find_all_def city_filter_def matches_def one_hotel_store_def)
  from serialize_doc_id_and_dates [OF d, of no_repr "\<lparr>db = Some one_hotel_store, calls = []\<rparr>" None]
  show ?thesis
    using d by (simp add: i ci ca g iso1 iso2 iso3 fa)
qed
text \<open>
  Claim C4, as stated: whenever the \<^verbatim>\<open>city\<close> parameter is supplied, exactly the hotels whose
  city equals it are returned. It fails for the empty string: no hotel of the store has
  the city \<^verbatim>\<open>""\<close>, and the one stored hotel is returned.
\<close>

theorem empty_city_is_not_a_filter:
  "with_field ''city'' '''' (colls one_hotel_store ''hotel'') = []
   \<and> fst (list_hotels no_repr (Some '''') \<lparr>db = Some one_hotel_store, calls = []\<rparr>) =
       Inr (serialized no_repr [urban_chic])
   \<and> serialized no_repr [urban_chic] \<noteq> serialized no_repr []"
  by (simp add: list_hotels_db find_all_Nil city_filter_def with_field_def one_hotel_store_def
      urban_chic_def serialized_def)


text \<open>
  Claim C4, amended. For every store state, \<^verbatim>\<open>GET /hotels\<close> with a non-empty \<^verbatim>\<open>city\<close>
  parameter returns (serialized, in store order) exactly the hotels whose \<^verbatim>\<open>city\<close> field
  equals the parameter, and without the parameter it returns every hotel of the store.
\<close>

theorem list_hotels_filter:
  assumes "db w = Some s"
  shows "(c \<noteq> [] \<longrightarrow>
            fst (list_hotels repr (Some c) w) =
              Inr (serialized repr (with_field ''city'' c (colls s ''hotel''))))
       \<and> fst (list_hotels repr None w) = Inr (serialized repr (colls s ''hotel''))"
  using assms
  by (simp add: list_hotels_db city_filter_def find_all_Nil find_all_single)


theorem list_hotels_filter_witness:
  "db \<lparr>db = Some two_hotel_store, calls = []\<rparr> = Some two_hotel_store
   \<and> fst (list_hotels no_repr (Some ''New York'') \<lparr>db = Some two_hotel_store, calls = []\<rparr>) =
       Inr (serialized no_repr [urban_chic])
   \<and> fst (list_hotels no_repr None \<lparr>db = Some two_hotel_store, calls = []\<rparr>) =
       Inr (serialized no_repr [urban_chic, no_city])"
proof -
  have a: "db \<lparr>db = Some two_hotel_store, calls = []\<rparr> = Some two_hotel_store" by simp
  have g: "colls two_hotel_store ''hotel'' = [urban_chic, no_city]"
    by (simp add: two_hotel_store_def)
  have f: "with_field ''city'' ''New York'' [urban_chic, no_city] = [urban_chic]"
    by (simp add: with_field_def urban_chic_def no_city_def)
  from list_hotels_filter [OF a, of "''New York''" no_repr] show ?thesis
    by (simp add: f g)
qed


text \<open>
  Claim C10. \<^verbatim>\<open>GET /hotels\<close> with the \<^verbatim>\<open>city\<close> parameter present but empty does what it does
  without the parameter: it returns all hotels of the store, not only those whose \<^verbatim>\<open>city\<close>
  field is the empty string.
\<close>

theorem empty_city_lists_all:
  "list_hotels repr (Some '''') w = list_hotels repr None w
   \<and> (\<forall>s. db w = Some s \<longrightarrow>
          fst (list_hotels repr (Some '''') w) = Inr (serialized repr (colls s ''hotel'')))"
  by (simp add: list_hotels_def city_filter_def get_documents_def except_Exception_def
      serialized_def find_all_Nil Let_def)


theorem empty_city_lists_all_witness:
  "with_field ''city'' '''' (colls two_hotel_store ''hotel'') = [no_city]
   \<and> fst (list_hotels no_repr (Some '''') \<lparr>db = Some two_hotel_store, calls = []\<rparr>) =
       Inr (serialized no_repr [urban_chic, no_city])"
proof -
  have g: "colls two_hotel_store ''hotel'' = [urban_chic, no_city]"
    by (simp add: two_hotel_store_def)
  have f: "with_field ''city'' '''' [urban_chic, no_city] = [no_city]"
    by (simp add: with_field_def urban_chic_def no_city_def)
  from empty_city_lists_all [of no_repr "\<lparr>db = Some two_hotel_store, calls = []\<rparr>", THEN conjunct2]
  show ?thesis by (simp add: f g)
qed

section \<open>POST /contact\<close>

lemma validate_ContactMessage_ok:
  assumes "map_of body ''name'' = Some (JStr n)"
    and "map_of body ''email'' = Some (JStr e)" and "validate_email e = Some a"
    and "map_of body ''message'' = Some (JStr m)"
  shows "validate_ContactMessage validate_email body =
     (if length m < 5 then Inl [(''message'', string_too_short)]
      else Inr \<lparr>ContactMessage.name = n, ContactMessage.email = a, message = m\<rparr>)"
  using assms
  by (simp add: validate_ContactMessage_def str_field_def email_field_def min_length_field_def
      errors_of_def)

lemma contact_db:
  "db w = Some s \<Longrightarrow>
   contact msg w =
     (Inr (VDict [(''id'', VStr (hex_of (new_oid (counter s)))), (''status'', VStr ''received'')]),
      w\<lparr>db := Some (s\<lparr>colls := (colls s)(''contactmessage'' :=
                 colls s ''contactmessage'' @ [stored_doc (counter s) (ContactMessage_model_dump msg)]),
               counter := Suc (counter s)\<rparr>),
        calls := calls w @ [Insert_one ''contactmessage'' (ContactMessage_model_dump msg)]\<rparr>)"
  by (cases "new_oid (counter s)")
     (simp add: contact_def create_document_def insert_one_def except_Exception_def Let_def
      stored_doc_def)

lemma contact_no_db:
  "db w = None \<Longrightarrow> contact msg w = (Inl (HTTPException 500 (StrOf StoreUnavailable)), w)"
  by (simp add: contact_def create_document_def except_Exception_def)


text \<open>
  Claim C6. A POST /contact request whose body has a name, a valid e-mail address and a
  string \<^verbatim>\<open>message\<close> is rejected (status 422) if and only if the message is shorter than 5
  characters. A rejected request leaves the world as it was: nothing is written to the
  store. An accepted request is stored when the store is configured: the collection
  \<^verbatim>\<open>contactmessage\<close> gains exactly the document of the message, and the answer is its
  identifier with the status \<^verbatim>\<open>received\<close>.
\<close>

theorem contact_message_min_length:
  assumes "map_of body ''name'' = Some (JStr n)"
    and "map_of body ''email'' = Some (JStr e)" and "validate_email e = Some a"
    and "map_of body ''message'' = Some (JStr m)"
  shows "(response_status (fst (post_contact validate_email body w)) = 422 \<longleftrightarrow> length m < 5)
       \<and> (length m < 5 \<longrightarrow>
            post_contact validate_email body w =
              (Inl (RequestValidationError [(''message'', string_too_short)]), w))
       \<and> (\<forall>s. 5 \<le> length m \<and> db w = Some s \<longrightarrow>
            fst (post_contact validate_email body w) =
              Inr (VDict [(''id'', VStr (hex_of (new_oid (counter s)))),
                          (''status'', VStr ''received'')])
            \<and> db (snd (post_contact validate_email body w)) =
                Some (s\<lparr>colls := (colls s)(''contactmessage'' :=
                          colls s ''contactmessage'' @ [stored_doc (counter s) (contact_doc n a m)]),
                        counter := Suc (counter s)\<rparr>))"
proof (cases "length m < 5")
  case True
  then show ?thesis
    using validate_ContactMessage_ok [where validate_email = validate_email, OF assms]
    by (simp add: post_contact_def response_status_def)
next
  case False
  have pc: "post_contact validate_email body w =
      contact \<lparr>ContactMessage.name = n, ContactMessage.email = a, message = m\<rparr> w"
    using validate_ContactMessage_ok [where validate_email = validate_email, OF assms] False
    by (simp add: post_contact_def)
  have st: "response_status (fst (post_contact validate_email body w)) \<noteq> 422"
  proof (cases "db w")
    case None
    then show ?thesis by (simp add: pc contact_no_db response_status_def)
  next
    case (Some s)
    then show ?thesis by (simp add: pc contact_db response_status_def)
  qed
  show ?thesis
    using False st
    by (auto simp: pc contact_db ContactMessage_model_dump_def contact_doc_def)
qed


theorem contact_message_min_length_witness:
  "response_status (fst (post_contact accept_at (contact_body ''Hiya'')
       \<lparr>db = Some empty_store, calls = []\<rparr>)) = 422
   \<and> post_contact accept_at (contact_body ''Hiya'') \<lparr>db = Some empty_store, calls = []\<rparr> =
       (Inl (RequestValidationError [(''message'', string_too_short)]),
        \<lparr>db = Some empty_store, calls = []\<rparr>)
   \<and> response_status (fst (post_contact accept_at (contact_body ''Hello'')
       \<lparr>db = Some empty_store, calls = []\<rparr>)) \<noteq> 422
   \<and> fst (post_contact accept_at (contact_body ''Hello'') \<lparr>db = Some empty_store, calls = []\<rparr>) =
       Inr (VDict [(''id'', VStr (hex_of (new_oid 0))), (''status'', VStr ''received'')])
   \<and> db (snd (post_contact accept_at (contact_body ''Hello'')
         \<lparr>db = Some empty_store, calls = []\<rparr>)) =
       Some (empty_store\<lparr>colls := (colls empty_store)(''contactmessage'' :=
               [[(''_id'', VOid (new_oid 0)), (''name'', VStr ''Ann''),
                 (''email'', VStr ''ann@b.com''), (''message'', VStr ''Hello'')]]),
             counter := 1\<rparr>)"
proof -
  let ?w = "\<lparr>db = Some empty_store, calls = []\<rparr>"
  have n: "\<And>m. map_of (contact_body m) ''name'' = Some (JStr ''Ann'')"
    and e: "\<And>m. map_of (contact_body m) ''email'' = Some (JStr ''ann@b.com'')"
    and m: "\<And>m. map_of (contact_body m) ''message'' = Some (JStr m)"
    by (simp_all add: contact_body_def)
  have v: "accept_at ''ann@b.com'' = Some ''ann@b.com''"
    by (simp add: accept_at_def)
  have c0: "counter empty_store = 0" and cm: "colls empty_store ''contactmessage'' = []"
    by (simp_all add: empty_store_def)
  have sd: "stored_doc 0 (contact_doc ''Ann'' ''ann@b.com'' ''Hello'') =
      [(''_id'', VOid (new_oid 0)), (''name'', VStr ''Ann''),
       (''email'', VStr ''ann@b.com''), (''message'', VStr ''Hello'')]"
    by (simp add: stored_doc_def contact_doc_def)
  from contact_message_min_length [where validate_email = accept_at and w = ?w, OF n e v m, of "''Hiya''"]
       contact_message_min_length [where validate_email = accept_at and w = ?w, OF n e v m, of "''Hello''"]
  show ?thesis
    by (simp add: c0 cm sd response_status_def)
qed

section \<open>POST /auth/login\<close>

lemma find_filter_conv:
  "List.find P xs = (case filter P xs of [] \<Rightarrow> None | x # ys \<Rightarrow> Some x)"
  by (induction xs) auto

lemma find_one_with_field:
  "find_one s c [(k, VStr t)] =
     (case with_field k t (colls s c) of [] \<Rightarrow> None | d # ds \<Rightarrow> Some d)"
proof -
  have "filter (matches [(k, VStr t)]) (colls s c) = with_field k t (colls s c)"
    by (auto simp: with_field_def matches_single intro: filter_cong)
  then show ?thesis
    by (simp add: find_one_def find_filter_conv)
qed

lemma with_field_Cons_D:
  "with_field k t xs = d # ds \<Longrightarrow> map_of d k = Some (VStr t)"
  by (metis (mono_tags, lifting) Cons_eq_filterD with_field_def)

lemma login_existing:
  assumes "db w = Some s"
    and "with_field ''email'' (LoginRequest.email req) (colls s ''user'') = d # ds"
  shows "login req w =
     (Inr (profile (name_of req d) (LoginRequest.email req)),
      w\<lparr>calls := calls w @ [Find_one ''user'' [(''email'', VStr (LoginRequest.email req))]]\<rparr>)"
proof -
  have "map_of d ''email'' = Some (VStr (LoginRequest.email req))"
    using with_field_Cons_D [OF assms(2)] .
  then have ne: "d \<noteq> []" by auto
  show ?thesis
    using assms ne
    by (simp add: login_def db_find_one_def find_one_with_field truthy_def login_return_def
        except_Exception_def profile_def name_of_def)
qed

lemma login_new:
  assumes "db w = Some s"
    and "with_field ''email'' (LoginRequest.email req) (colls s ''user'') = []"
  shows "login req w =
     (Inr (profile (VStr (login_name req)) (LoginRequest.email req)),
      w\<lparr>db := Some (s\<lparr>colls := (colls s)(''user'' :=
                  colls s ''user'' @ [stored_doc (counter s) (user_data req)]),
                counter := Suc (counter s)\<rparr>),
        calls := calls w @
          [Find_one ''user'' [(''email'', VStr (LoginRequest.email req))],
           Insert_one ''user'' (user_data req),
           Find_one ''user'' [(''email'', VStr (LoginRequest.email req))]]\<rparr>)"
proof -
  obtain h where h: "new_oid (counter s) = Oid h" by (cases "new_oid (counter s)")
  have sd: "stored_doc (counter s) (user_data req) = (''_id'', VOid (Oid h)) # user_data req"
    by (simp add: stored_doc_def user_data_def h)
  have wf: "with_field ''email'' (LoginRequest.email req)
              (colls s ''user'' @ [(''_id'', VOid (Oid h)) # user_data req]) =
            [(''_id'', VOid (Oid h)) # user_data req]"
    using assms(2) by (simp add: with_field_def user_data_def)
  have nm: "map_of (user_data req) ''name'' = Some (VStr (login_name req))"
    by (simp add: user_data_def)
  have del: "AList.delete ''_id'' (user_data req) = user_data req"
    by (simp add: user_data_def)
  show ?thesis
    using assms
    by (simp add: login_def db_find_one_def find_one_with_field truthy_def login_return_def
        except_Exception_def profile_def create_document_def insert_one_def Let_def h sd wf
        nm del)
qed



text \<open>
  Claim C8. \<^verbatim>\<open>POST /auth/login\<close> is find-or-create by e-mail address. When the store holds
  a user with the request's address, the handler returns the profile of the first such
  user and leaves the store unchanged: no document is inserted and none is modified. When
  it holds none, exactly one user document is created, with the request's address, so
  that afterwards exactly one user has that address. In both cases the e-mail address of
  the returned profile is the request's.
\<close>

theorem login_find_or_create:
  assumes "db w = Some s"
  shows "(case with_field ''email'' (LoginRequest.email req) (colls s ''user'') of
            d # ds \<Rightarrow>
              db (snd (login req w)) = db w
              \<and> fst (login req w) = Inr (profile (name_of req d) (LoginRequest.email req))
          | [] \<Rightarrow>
              db (snd (login req w)) =
                Some (s\<lparr>colls := (colls s)(''user'' :=
                          colls s ''user'' @ [stored_doc (counter s) (user_data req)]),
                        counter := Suc (counter s)\<rparr>)
              \<and> with_field ''email'' (LoginRequest.email req)
                    (colls s ''user'' @ [stored_doc (counter s) (user_data req)]) =
                  [stored_doc (counter s) (user_data req)]
              \<and> fst (login req w) =
                  Inr (profile (VStr (login_name req)) (LoginRequest.email req)))"
proof (cases "with_field ''email'' (LoginRequest.email req) (colls s ''user'')")
  case Nil
  have "with_field ''email'' (LoginRequest.email req)
          (colls s ''user'' @ [stored_doc (counter s) (user_data req)]) =
        [stored_doc (counter s) (user_data req)]"
    using Nil by (simp add: with_field_def stored_doc_def user_data_def)
  then show ?thesis
    using login_new [OF assms Nil] Nil by simp
next
  case (Cons d ds)
  then show ?thesis
    using login_existing [OF assms Cons] by simp
qed


theorem login_find_or_create_witness:
  "db \<lparr>db = Some one_user_store, calls = []\<rparr> = Some one_user_store
   \<and> db (snd (login (login_request ''ann@b.com'') \<lparr>db = Some one_user_store, calls = []\<rparr>)) =
       Some one_user_store
   \<and> fst (login (login_request ''ann@b.com'') \<lparr>db = Some one_user_store, calls = []\<rparr>) =
       Inr (profile (VStr ''Ann'') ''ann@b.com'')
   \<and> db (snd (login (login_request ''bob@b.com'') \<lparr>db = Some one_user_store, calls = []\<rparr>)) =
       Some (one_user_store\<lparr>colls := (colls one_user_store)(''user'' :=
               [ann, [(''_id'', VOid (new_oid 1)), (''name'', VStr ''bob''),
                      (''email'', VStr ''bob@b.com''), (''password_hash'', VStr ''demo-hash'')]]),
             counter := 2\<rparr>)
   \<and> fst (login (login_request ''bob@b.com'') \<lparr>db = Some one_user_store, calls = []\<rparr>) =
       Inr (profile (VStr ''bob'') ''bob@b.com'')"
proof -
  let ?w = "\<lparr>db = Some one_user_store, calls = []\<rparr>"
  have a: "db ?w = Some one_user_store" by simp
  have u: "colls one_user_store ''user'' = [ann]" and c: "counter one_user_store = 1"
    by (simp_all add: one_user_store_def)
  have f1: "with_field ''email'' ''ann@b.com'' [ann] = [ann]"
    and f2: "with_field ''email'' ''bob@b.com'' [ann] = []"
    by (simp_all add: with_field_def ann_def)
  have n1: "name_of (login_request ''ann@b.com'') ann = VStr ''Ann''"
    by (simp add: name_of_def ann_def)
  have n2: "login_name (login_request ''bob@b.com'') = ''bob''"
    by (simp add: login_name_def login_request_def)
  have sd: "stored_doc (Suc 0) (user_data (login_request ''bob@b.com'')) =
      [(''_id'', VOid (new_oid 1)), (''name'', VStr ''bob''),
       (''email'', VStr ''bob@b.com''), (''password_hash'', VStr ''demo-hash'')]"
    by (simp add: stored_doc_def user_data_def n2) (simp add: login_request_def)
  have e1: "LoginRequest.email (login_request ''ann@b.com'') = ''ann@b.com''"
    and e2: "LoginRequest.email (login_request ''bob@b.com'') = ''bob@b.com''"
    by (simp_all add: login_request_def)
  from login_find_or_create [OF a, of "login_request ''ann@b.com''"]
       login_find_or_create [OF a, of "login_request ''bob@b.com''"]
  show ?thesis
    by (simp add: u c f1 f2 n1 n2 sd e1 e2)
qed

section \<open>POST /hotels/seed\<close>

text \<open>
  On a configured store the loop of \<^verbatim>\<open>seed_hotels\<close> never fails, and what it does to the
  store is \<open>seed_store\<close>: one \<open>seed_step\<close> for each sample hotel.
\<close>

lemma seed_loop_db:
  "db w = Some s \<Longrightarrow>
   fst (seed_loop hs w) = Inr () \<and> db (snd (seed_loop hs w)) = Some (seed_store hs s)"
proof (induction hs arbitrary: w s)
  case Nil
  then show ?case by simp
next
  case (Cons h hs)
  let ?flt = "[(''name'', VStr (Hotel.name h))]"
  let ?w1 = "w\<lparr>calls := calls w @ [Find_one ''hotel'' ?flt]\<rparr>"
  have f: "db_find_one ''hotel'' ?flt w = (Inr (find_one s ''hotel'' ?flt), ?w1)"
    using Cons.prems by (simp add: db_find_one_def)
  have w1: "db ?w1 = Some s" using Cons.prems by simp
  show ?case
  proof (cases "list_ex (\<lambda>d. map_of d ''name'' = Some (VStr (Hotel.name h))) (colls s ''hotel'')")
    case True
    then have "seed_loop (h # hs) w = seed_loop hs ?w1"
      using f truthy_find_one [of s "''hotel''" "''name''" "VStr (Hotel.name h)"] by simp
    then show ?thesis
      using Cons.IH [OF w1] True by (simp add: seed_step_def)
  next
    case False
    obtain i s' where ins: "insert_one s ''hotel'' (Hotel_model_dump h) = (i, s')"
      by (cases "insert_one s ''hotel'' (Hotel_model_dump h)")
    obtain hx where hx: "i = Oid hx" by (cases i)
    let ?w2 = "?w1\<lparr>db := Some s', calls := calls ?w1 @ [Insert_one ''hotel'' (Hotel_model_dump h)]\<rparr>"
    have c: "create_document ''hotel'' (Hotel_model_dump h) ?w1 = (Inr hx, ?w2)"
      using w1 ins hx by (simp add: create_document_def)
    have "seed_loop (h # hs) w = seed_loop hs ?w2"
      using f c False truthy_find_one [of s "''hotel''" "''name''" "VStr (Hotel.name h)"]
      by simp
    moreover have "db ?w2 = Some s'" by simp
    ultimately show ?thesis
      using Cons.IH [of ?w2 s'] False ins by (simp add: seed_step_def)
  qed
qed

lemma seed_hotels_db:
  "db w = Some s \<Longrightarrow>
   fst (seed_hotels w) = Inr (VDict [(''status'', VStr ''ok'')])
   \<and> db (snd (seed_hotels w)) = Some (seed_store SAMPLE_HOTELS s)"
  using seed_loop_db [of w s SAMPLE_HOTELS]
  by (cases "seed_loop SAMPLE_HOTELS w") (simp add: seed_hotels_def except_Exception_def)

lemma list_ex_named:
  "list_ex (\<lambda>d. map_of d ''name'' = Some (VStr nm)) ds \<longleftrightarrow> named nm ds \<noteq> 0"
  by (auto simp: named_def with_field_def list_ex_iff filter_empty_conv)

lemma hotels_seed_step:
  "colls (seed_step h s) ''hotel'' =
     (if named (Hotel.name h) (colls s ''hotel'') \<noteq> 0 then colls s ''hotel''
      else colls s ''hotel'' @ [stored_doc (counter s) (Hotel_model_dump h)])"
  by (simp add: seed_step_def list_ex_named insert_one_def stored_doc_def Let_def)

lemma named_stored_hotel:
  "named nm [stored_doc n (Hotel_model_dump h)] = (if nm = Hotel.name h then 1 else 0)"
  by (simp add: named_def with_field_def stored_doc_def Hotel_model_dump_def)

lemma named_append: "named nm (xs @ ys) = named nm xs + named nm ys"
  by (simp add: named_def with_field_def)

lemma named_seed_step:
  "named nm (colls (seed_step h s) ''hotel'') =
     (if nm = Hotel.name h then max 1 (named nm (colls s ''hotel''))
      else named nm (colls s ''hotel''))"
  by (auto simp: hotels_seed_step named_append named_stored_hotel)

lemma named_seed_store:
  "distinct (map Hotel.name hs) \<Longrightarrow>
   named nm (colls (seed_store hs s) ''hotel'') =
     (if nm \<in> set (map Hotel.name hs) then max 1 (named nm (colls s ''hotel''))
      else named nm (colls s ''hotel''))"
proof (induction hs arbitrary: s)
  case Nil
  then show ?case by simp
next
  case (Cons h hs)
  then have d: "distinct (map Hotel.name hs)" and n: "Hotel.name h \<notin> set (map Hotel.name hs)"
    by simp_all
  show ?case
    using Cons.IH [OF d, of "seed_step h s"] n
    by (auto simp: named_seed_step)
qed

lemma seed_store_fixed:
  "list_all (\<lambda>h. named (Hotel.name h) (colls s ''hotel'') \<noteq> 0) hs \<Longrightarrow> seed_store hs s = s"
  by (induction hs) (simp_all add: seed_step_def list_ex_named)

lemma seed_store_idem:
  assumes "distinct (map Hotel.name hs)"
  shows "seed_store hs (seed_store hs s) = seed_store hs s"
proof -
  have "list_all (\<lambda>h. named (Hotel.name h) (colls (seed_store hs s) ''hotel'') \<noteq> 0) hs"
    by (auto simp: list_all_iff named_seed_store [OF assms])
  then show ?thesis by (rule seed_store_fixed)
qed

lemma length_seed_store:
  "distinct (map Hotel.name hs) \<Longrightarrow>
   length (colls (seed_store hs s) ''hotel'') =
     length (colls s ''hotel'') +
     length (filter (\<lambda>h. named (Hotel.name h) (colls s ''hotel'') = 0) hs)"
proof (induction hs arbitrary: s)
  case Nil
  then show ?case by simp
next
  case (Cons h hs)
  then have d: "distinct (map Hotel.name hs)" and n: "Hotel.name h \<notin> set (map Hotel.name hs)"
    by simp_all
  have same: "filter (\<lambda>h'. named (Hotel.name h') (colls (seed_step h s) ''hotel'') = 0) hs =
              filter (\<lambda>h'. named (Hotel.name h') (colls s ''hotel'') = 0) hs"
  proof (intro filter_cong refl)
    fix h' assume "h' \<in> set hs"
    then have "Hotel.name h' \<in> set (map Hotel.name hs)" by (simp only: set_map image_eqI)
    with n have "Hotel.name h' \<noteq> Hotel.name h" by metis
    then show "(named (Hotel.name h') (colls (seed_step h s) ''hotel'') = 0) =
               (named (Hotel.name h') (colls s ''hotel'') = 0)"
      by (simp add: named_seed_step)
  qed
  have len1: "length (colls (seed_step h s) ''hotel'') =
      length (colls s ''hotel'') + (if named (Hotel.name h) (colls s ''hotel'') = 0 then 1 else 0)"
    by (simp add: hotels_seed_step)
  have "length (colls (seed_store hs (seed_step h s)) ''hotel'') =
      length (colls s ''hotel'') + (if named (Hotel.name h) (colls s ''hotel'') = 0 then 1 else 0) +
      length (filter (\<lambda>h'. named (Hotel.name h') (colls s ''hotel'') = 0) hs)"
    using Cons.IH [OF d, of "seed_step h s"] unfolding same len1 .
  then show ?case by simp
qed

lemma distinct_SAMPLE_HOTELS: "distinct (map Hotel.name SAMPLE_HOTELS)"
  by (simp add: SAMPLE_HOTELS_def)
lemma hotels_after_seed:
  "db w = Some s \<Longrightarrow> hotels_of (snd (seed_hotels w)) = colls (seed_store SAMPLE_HOTELS s) ''hotel''"
  using seed_hotels_db [of w s] by (simp add: hotels_of_def)


lemma hotel_doc_dump: "Hotel_model_dump h = hotel_doc h"
  by (simp add: Hotel_model_dump_def hotel_doc_def)

lemma seed_step_eq:
  "seed_step h s =
     (if named (Hotel.name h) (colls s ''hotel'') \<noteq> 0 then s
      else s\<lparr>colls := (colls s)(''hotel'' :=
                 colls s ''hotel'' @ [stored_doc (counter s) (hotel_doc h)]),
             counter := Suc (counter s)\<rparr>)"
  by (simp add: seed_step_def list_ex_named insert_one_def stored_doc_def Let_def hotel_doc_dump)

lemma missing_after_step:
  assumes "Hotel.name h \<notin> set (map Hotel.name hs)"
  shows "missing_hotels (colls (seed_step h s) ''hotel'') hs = missing_hotels (colls s ''hotel'') hs"
  unfolding missing_hotels_def
proof (intro filter_cong refl)
  fix h' assume "h' \<in> set hs"
  then have "Hotel.name h' \<in> set (map Hotel.name hs)" by (simp only: set_map image_eqI)
  with assms have "Hotel.name h' \<noteq> Hotel.name h" by metis
  then show "(named (Hotel.name h') (colls (seed_step h s) ''hotel'') = 0) =
             (named (Hotel.name h') (colls s ''hotel'') = 0)"
    by (simp add: named_seed_step)
qed

lemma seed_store_eq:
  "distinct (map Hotel.name hs) \<Longrightarrow>
   seed_store hs s =
     s\<lparr>colls := (colls s)(''hotel'' :=
            colls s ''hotel'' @ seeded_docs (counter s) (missing_hotels (colls s ''hotel'') hs)),
       counter := counter s + length (missing_hotels (colls s ''hotel'') hs)\<rparr>"
proof (induction hs arbitrary: s)
  case Nil
  then show ?case by (simp add: missing_hotels_def seeded_docs_def)
next
  case (Cons h hs)
  then have d: "distinct (map Hotel.name hs)" and n: "Hotel.name h \<notin> set (map Hotel.name hs)"
    by simp_all
  let ?s' = "seed_step h s"
  note IH = Cons.IH [OF d, of ?s', unfolded missing_after_step [OF n]]
  show ?case
  proof (cases "named (Hotel.name h) (colls s ''hotel'') = 0")
    case False
    then have s': "?s' = s" by (simp add: seed_step_eq)
    have m: "missing_hotels (colls s ''hotel'') (h # hs) = missing_hotels (colls s ''hotel'') hs"
      using False by (simp add: missing_hotels_def)
    show ?thesis using IH by (simp add: s' m)
  next
    case True
    then have s': "?s' = s\<lparr>colls := (colls s)(''hotel'' :=
                 colls s ''hotel'' @ [stored_doc (counter s) (hotel_doc h)]),
             counter := Suc (counter s)\<rparr>"
      by (simp add: seed_step_eq)
    have m: "missing_hotels (colls s ''hotel'') (h # hs) = h # missing_hotels (colls s ''hotel'') hs"
      using True by (simp add: missing_hotels_def)
    have sd: "seeded_docs (counter s) (h # missing_hotels (colls s ''hotel'') hs) =
        stored_doc (counter s) (hotel_doc h) #
        seeded_docs (Suc (counter s)) (missing_hotels (colls s ''hotel'') hs)"
      by (simp add: seeded_docs_def)
    have c: "counter ?s' = Suc (counter s)"
      and h': "colls ?s' ''hotel'' = colls s ''hotel'' @ [stored_doc (counter s) (hotel_doc h)]"
      and cs: "colls ?s' = (colls s)(''hotel'' := colls s ''hotel'' @ [stored_doc (counter s) (hotel_doc h)])"
      by (simp_all add: s')
    have "seed_store (h # hs) s = seed_store hs ?s'" by simp
    also have "\<dots> = ?s'\<lparr>colls := (colls ?s')(''hotel'' :=
            colls ?s' ''hotel'' @ seeded_docs (counter ?s') (missing_hotels (colls s ''hotel'') hs)),
       counter := counter ?s' + length (missing_hotels (colls s ''hotel'') hs)\<rparr>"
      by (rule IH)
    also have "\<dots> = s\<lparr>colls := (colls s)(''hotel'' :=
            colls s ''hotel'' @ seeded_docs (counter s) (missing_hotels (colls s ''hotel'') (h # hs))),
       counter := counter s + length (missing_hotels (colls s ''hotel'') (h # hs))\<rparr>"
      unfolding c h' cs m sd by (simp add: s')
    finally show ?thesis .
  qed
qed

text \<open>
  Claim C3, as stated: after seeding, from any store state, the store contains exactly one
  hotel per sample name. It fails on a store that already holds two hotels of a sample
  name: seeding inserts only what is missing and removes nothing, so both remain.
\<close>

theorem seeding_keeps_duplicates:
  "''Urban Chic Hotel'' \<in> set (map Hotel.name SAMPLE_HOTELS)
   \<and> named ''Urban Chic Hotel''
        (hotels_of (snd (seed_hotels \<lparr>db = Some twin_store, calls = []\<rparr>))) = 2"
proof -
  have m: "''Urban Chic Hotel'' \<in> set (map Hotel.name SAMPLE_HOTELS)"
    by (simp add: SAMPLE_HOTELS_def)
  have n: "named ''Urban Chic Hotel'' (colls twin_store ''hotel'') = 2"
    by (simp add: named_def with_field_def twin_store_def urban_chic_def urban_chic_twin_def)
  have "named ''Urban Chic Hotel''
          (hotels_of (snd (seed_hotels \<lparr>db = Some twin_store, calls = []\<rparr>))) =
        max 1 (named ''Urban Chic Hotel'' (colls twin_store ''hotel''))"
    using m by (simp add: hotels_after_seed named_seed_store [OF distinct_SAMPLE_HOTELS])
  with m n show ?thesis by simp
qed


text \<open>
  Claim C3, amended. \<^verbatim>\<open>POST /hotels/seed\<close> is idempotent: from any store state both runs
  succeed and the second leaves the store as the first left it. The first run keeps every
  stored hotel as it is and where it is, and appends, in the order of the sample list, the
  document of each sample hotel whose name the store did not hold: the hotel's six fields
  under a new identifier. Nothing else in the store changes. So after seeding every sample
  name is present: the number of hotels of a sample name is what it was before, or one
  when there was none, and the store holds exactly one hotel per sample name whenever it
  held at most one before, and exactly the three sample hotels when seeded from an empty
  collection.
\<close>

theorem seed_hotels_idempotent:
  assumes "db w = Some s"
  shows "fst (seed_hotels w) = Inr (VDict [(''status'', VStr ''ok'')])
       \<and> db (snd (seed_hotels w)) =
           Some (s\<lparr>colls := (colls s)(''hotel'' :=
                     colls s ''hotel'' @
                     seeded_docs (counter s) (missing_hotels (colls s ''hotel'') SAMPLE_HOTELS)),
                   counter :=
                     counter s + length (missing_hotels (colls s ''hotel'') SAMPLE_HOTELS)\<rparr>)
       \<and> fst (seed_hotels (snd (seed_hotels w))) = Inr (VDict [(''status'', VStr ''ok'')])
       \<and> db (snd (seed_hotels (snd (seed_hotels w)))) = db (snd (seed_hotels w))
       \<and> (\<forall>nm \<in> set (map Hotel.name SAMPLE_HOTELS).
            named nm (hotels_of (snd (seed_hotels w))) = max 1 (named nm (hotels_of w)))
       \<and> (\<forall>nm. nm \<notin> set (map Hotel.name SAMPLE_HOTELS) \<longrightarrow>
            named nm (hotels_of (snd (seed_hotels w))) = named nm (hotels_of w))
       \<and> length (hotels_of (snd (seed_hotels w))) =
           length (hotels_of w) +
           length (filter (\<lambda>h. named (Hotel.name h) (hotels_of w) = 0) SAMPLE_HOTELS)"
proof -
  let ?s1 = "seed_store SAMPLE_HOTELS s"
  note d = distinct_SAMPLE_HOTELS
  have h0: "hotels_of w = colls s ''hotel''" using assms by (simp add: hotels_of_def)
  have h1: "hotels_of (snd (seed_hotels w)) = colls ?s1 ''hotel''"
    by (rule hotels_after_seed [OF assms])
  have r1: "fst (seed_hotels w) = Inr (VDict [(''status'', VStr ''ok'')])"
    and d1: "db (snd (seed_hotels w)) = Some ?s1"
    using seed_hotels_db [OF assms] by simp_all
  have ex: "db (snd (seed_hotels w)) =
           Some (s\<lparr>colls := (colls s)(''hotel'' :=
                     colls s ''hotel'' @
                     seeded_docs (counter s) (missing_hotels (colls s ''hotel'') SAMPLE_HOTELS)),
                   counter :=
                     counter s + length (missing_hotels (colls s ''hotel'') SAMPLE_HOTELS)\<rparr>)"
    unfolding d1 by (simp only: seed_store_eq [OF d])
  have r2: "fst (seed_hotels (snd (seed_hotels w))) = Inr (VDict [(''status'', VStr ''ok'')])"
    and d2: "db (snd (seed_hotels (snd (seed_hotels w)))) = Some (seed_store SAMPLE_HOTELS ?s1)"
    using seed_hotels_db [OF d1] by simp_all
  have idem: "db (snd (seed_hotels (snd (seed_hotels w)))) = db (snd (seed_hotels w))"
    by (simp add: d1 d2 seed_store_idem [OF d])
  have c1: "\<forall>nm \<in> set (map Hotel.name SAMPLE_HOTELS).
      named nm (hotels_of (snd (seed_hotels w))) = max 1 (named nm (hotels_of w))"
    by (simp add: h0 h1 named_seed_store [OF d])
  have c2: "\<forall>nm. nm \<notin> set (map Hotel.name SAMPLE_HOTELS) \<longrightarrow>
      named nm (hotels_of (snd (seed_hotels w))) = named nm (hotels_of w)"
    by (simp add: h0 h1 named_seed_store [OF d])
  have len: "length (hotels_of (snd (seed_hotels w))) =
           length (hotels_of w) +
           length (filter (\<lambda>h. named (Hotel.name h) (hotels_of w) = 0) SAMPLE_HOTELS)"
    by (simp add: h0 h1 length_seed_store [OF d])
  from r1 ex r2 idem c1 c2 len show ?thesis by blast
qed

theorem seed_hotels_idempotent_witness:
  "db \<lparr>db = Some empty_store, calls = []\<rparr> = Some empty_store
   \<and> hotels_of \<lparr>db = Some empty_store, calls = []\<rparr> = []
   \<and> fst (seed_hotels \<lparr>db = Some empty_store, calls = []\<rparr>) = Inr (VDict [(''status'', VStr ''ok'')])
   \<and> hotels_of (snd (seed_hotels \<lparr>db = Some empty_store, calls = []\<rparr>)) =
       [[(''_id'', VOid (new_oid 0)),
         (''name'', VStr ''Seaside Paradise Resort''),
         (''city'', VStr ''Miami''),
         (''description'', VStr ''Oceanfront resort with private beach, pool, and spa.''),
         (''images'', VList [VStr ''https://images.unsplash.com/photo-1501117716987-c8e3f71b1e47'',
                             VStr ''https://images.unsplash.com/photo-1559599238-0f8c2f66a7e3'']),
         (''price_per_night'', VFloat 219),
         (''rating'', VFloat (46 / 10))],
        [(''_id'', VOid (new_oid (Suc 0))),
         (''name'', VStr ''Urban Chic Hotel''),
         (''city'', VStr ''New York''),
         (''description'', VStr ''Boutique hotel in the heart of the city with skyline views.''),
         (''images'', VList [VStr ''https://images.unsplash.com/photo-1522708323590-d24dbb6b0267'',
                             VStr ''https://images.unsplash.com/photo-1509057199576-632a47484ece'']),
         (''price_per_night'', VFloat 299),
         (''rating'', VFloat (47 / 10))],
        [(''_id'', VOid (new_oid (Suc (Suc 0)))),
         (''name'', VStr ''Mountain Escape Lodge''),
         (''city'', VStr ''Denver''),
         (''description'', VStr ''Cozy lodge with mountain views, hiking access, and hot tubs.''),
         (''images'', VList [VStr ''https://images.unsplash.com/photo-1505691938895-1758d7feb511'',
                             VStr ''https://images.unsplash.com/photo-1507679799987-c73779587ccf'']),
         (''price_per_night'', VFloat 189),
         (''rating'', VFloat (45 / 10))]]
   \<and> db (snd (seed_hotels (snd (seed_hotels \<lparr>db = Some empty_store, calls = []\<rparr>)))) =
       db (snd (seed_hotels \<lparr>db = Some empty_store, calls = []\<rparr>))
   \<and> hotels_of (snd (seed_hotels \<lparr>db = Some one_hotel_store, calls = []\<rparr>)) =
       [urban_chic,
        [(''_id'', VOid (new_oid (Suc 0))),
         (''name'', VStr ''Seaside Paradise Resort''),
         (''city'', VStr ''Miami''),
         (''description'', VStr ''Oceanfront resort with private beach, pool, and spa.''),
         (''images'', VList [VStr ''https://images.unsplash.com/photo-1501117716987-c8e3f71b1e47'',
                             VStr ''https://images.unsplash.com/photo-1559599238-0f8c2f66a7e3'']),
         (''price_per_night'', VFloat 219),
         (''rating'', VFloat (46 / 10))],
        [(''_id'', VOid (new_oid (Suc (Suc 0)))),
         (''name'', VStr ''Mountain Escape Lodge''),
         (''city'', VStr ''Denver''),
         (''description'', VStr ''Cozy lodge with mountain views, hiking access, and hot tubs.''),
         (''images'', VList [VStr ''https://images.unsplash.com/photo-1505691938895-1758d7feb511'',
                             VStr ''https://images.unsplash.com/photo-1507679799987-c73779587ccf'']),
         (''price_per_night'', VFloat 189),
         (''rating'', VFloat (45 / 10))]]"
proof -
  let ?w = "\<lparr>db = Some empty_store, calls = []\<rparr>"
  let ?v = "\<lparr>db = Some one_hotel_store, calls = []\<rparr>"
  have a: "db ?w = Some empty_store" and b: "db ?v = Some one_hotel_store" by simp_all
  have h: "hotels_of ?w = []" by (simp add: hotels_of_def empty_store_def)
  have m0: "missing_hotels [] SAMPLE_HOTELS = SAMPLE_HOTELS"
    by (simp add: missing_hotels_def named_def with_field_def)
  have m1: "missing_hotels [urban_chic] SAMPLE_HOTELS = [SAMPLE_HOTELS ! 0, SAMPLE_HOTELS ! 2]"
    by (simp add: missing_hotels_def named_def with_field_def urban_chic_def SAMPLE_HOTELS_def)
  have c0: "counter empty_store = 0" and c1: "counter one_hotel_store = Suc 0"
    and e0: "colls empty_store ''hotel'' = []" and e1: "colls one_hotel_store ''hotel'' = [urban_chic]"
    by (simp_all add: empty_store_def one_hotel_store_def)
  have s0: "seeded_docs 0 SAMPLE_HOTELS =
      [stored_doc 0 (hotel_doc (SAMPLE_HOTELS ! 0)),
       stored_doc (Suc 0) (hotel_doc (SAMPLE_HOTELS ! 1)),
       stored_doc (Suc (Suc 0)) (hotel_doc (SAMPLE_HOTELS ! 2))]"
    by (simp add: seeded_docs_def SAMPLE_HOTELS_def)
  have s1: "seeded_docs (Suc 0) [SAMPLE_HOTELS ! 0, SAMPLE_HOTELS ! 2] =
      [stored_doc (Suc 0) (hotel_doc (SAMPLE_HOTELS ! 0)),
       stored_doc (Suc (Suc 0)) (hotel_doc (SAMPLE_HOTELS ! 2))]"
    by (simp add: seeded_docs_def)
  have d0: "\<And>n. stored_doc n (hotel_doc (SAMPLE_HOTELS ! 0)) =
        [(''_id'', VOid (new_oid n)),
         (''name'', VStr ''Seaside Paradise Resort''),
         (''city'', VStr ''Miami''),
         (''description'', VStr ''Oceanfront resort with private beach, pool, and spa.''),
         (''images'', VList [VStr ''https://images.unsplash.com/photo-1501117716987-c8e3f71b1e47'',
                             VStr ''https://images.unsplash.com/photo-1559599238-0f8c2f66a7e3'']),
         (''price_per_night'', VFloat 219),
         (''rating'', VFloat (46 / 10))]"
    by (simp add: stored_doc_def hotel_doc_def SAMPLE_HOTELS_def)
  have d1: "\<And>n. stored_doc n (hotel_doc (SAMPLE_HOTELS ! 1)) =
        [(''_id'', VOid (new_oid n)),
         (''name'', VStr ''Urban Chic Hotel''),
         (''city'', VStr ''New York''),
         (''description'', VStr ''Boutique hotel in the heart of the city with skyline views.''),
         (''images'', VList [VStr ''https://images.unsplash.com/photo-1522708323590-d24dbb6b0267'',
                             VStr ''https://images.unsplash.com/photo-1509057199576-632a47484ece'']),
         (''price_per_night'', VFloat 299),
         (''rating'', VFloat (47 / 10))]"
    by (simp add: stored_doc_def hotel_doc_def SAMPLE_HOTELS_def)
  have d2: "\<And>n. stored_doc n (hotel_doc (SAMPLE_HOTELS ! 2)) =
        [(''_id'', VOid (new_oid n)),
         (''name'', VStr ''Mountain Escape Lodge''),
         (''city'', VStr ''Denver''),
         (''description'', VStr ''Cozy lodge with mountain views, hiking access, and hot tubs.''),
         (''images'', VList [VStr ''https://images.unsplash.com/photo-1505691938895-1758d7feb511'',
                             VStr ''https://images.unsplash.com/photo-1507679799987-c73779587ccf'']),
         (''price_per_night'', VFloat 189),
         (''rating'', VFloat (45 / 10))]"
    by (simp add: stored_doc_def hotel_doc_def SAMPLE_HOTELS_def)
  from seed_hotels_idempotent [OF a]
  have r: "fst (seed_hotels ?w) = Inr (VDict [(''status'', VStr ''ok'')])"
    and dw: "db (snd (seed_hotels ?w)) =
           Some (empty_store\<lparr>colls := (colls empty_store)(''hotel'' :=
                     colls empty_store ''hotel'' @
                     seeded_docs (counter empty_store)
                       (missing_hotels (colls empty_store ''hotel'') SAMPLE_HOTELS)),
                   counter := counter empty_store +
                     length (missing_hotels (colls empty_store ''hotel'') SAMPLE_HOTELS)\<rparr>)"
    and idem: "db (snd (seed_hotels (snd (seed_hotels ?w)))) = db (snd (seed_hotels ?w))"
    by blast+
  from seed_hotels_idempotent [OF b]
  have dv: "db (snd (seed_hotels ?v)) =
           Some (one_hotel_store\<lparr>colls := (colls one_hotel_store)(''hotel'' :=
                     colls one_hotel_store ''hotel'' @
                     seeded_docs (counter one_hotel_store)
                       (missing_hotels (colls one_hotel_store ''hotel'') SAMPLE_HOTELS)),
                   counter := counter one_hotel_store +
                     length (missing_hotels (colls one_hotel_store ''hotel'') SAMPLE_HOTELS)\<rparr>)"
    by blast
  have hw: "hotels_of (snd (seed_hotels ?w)) =
      [stored_doc 0 (hotel_doc (SAMPLE_HOTELS ! 0)),
       stored_doc (Suc 0) (hotel_doc (SAMPLE_HOTELS ! 1)),
       stored_doc (Suc (Suc 0)) (hotel_doc (SAMPLE_HOTELS ! 2))]"
    unfolding hotels_of_def dw e0 c0 m0 s0 by simp
  have hv: "hotels_of (snd (seed_hotels ?v)) =
      [urban_chic,
       stored_doc (Suc 0) (hotel_doc (SAMPLE_HOTELS ! 0)),
       stored_doc (Suc (Suc 0)) (hotel_doc (SAMPLE_HOTELS ! 2))]"
    unfolding hotels_of_def dv e1 c1 m1 s1 by simp
  show ?thesis
    unfolding hw hv d0 d1 d2 using r idem h by simp
qed

end
